theory Spec2Isabelle
  imports Complex_Main
begin

section \<open>Python values and exceptions\<close>

text \<open>
  The three pipelines of \<^verbatim>\<open>biolit_miner\<close> exchange text with a remote completion service and
  turn its replies into dataclass instances. The embedding models a Python \<^verbatim>\<open>str\<close> as a
  \<^typ>\<open>string\<close> (each \<^typ>\<open>char\<close> read as a code point below 256), a raised exception as the
  \<open>Inl\<close> branch of a sum, and the values that \<^verbatim>\<open>json.loads\<close> produces as the datatype
  \<open>json\<close>: \<open>JNull\<close> is \<^verbatim>\<open>None\<close>, \<open>JArray\<close> a list and \<open>JObject\<close> a dict, listed in
  insertion order (a dict holds each key once). Not-a-number and the infinities are
  not represented.
\<close>

datatype json =
    JNull
  | JBool bool
  | JInt int
  | JFloat real
  | JString string
  | JArray "json list"
  | JObject "(string \<times> json) list"

text \<open>
  \<open>Exception p e\<close> is the plain \<^verbatim>\<open>Exception\<close> that a handler raises as
  \<^verbatim>\<open>raise Exception(f"p{e}")\<close>: its message is the prefix \<open>p\<close> followed by the message of the
  exception \<open>e\<close> it caught. The other constructors are the exception classes of the
  interpreter and the libraries; \<open>GatewayError\<close> stands for whatever the remote call raises.
\<close>

datatype error =
    ValueError string
  | TypeError
  | KeyError string
  | AttributeError
  | JSONDecodeError
  | FileNotFoundError string
  | GatewayError string
  | Exception string error

text \<open>Sequencing of two steps either of which may raise.\<close>

definition ebind :: "error + 'a \<Rightarrow> ('a \<Rightarrow> error + 'b) \<Rightarrow> error + 'b" where
  "ebind m f = (case m of Inl e \<Rightarrow> Inl e | Inr x \<Rightarrow> f x)"

text \<open>A list comprehension whose element expression may raise: the first exception ends it.\<close>

fun traverse :: "('a \<Rightarrow> error + 'b) \<Rightarrow> 'a list \<Rightarrow> error + 'b list" where
  "traverse f [] = Inr []"
| "traverse f (x # xs) =
     (case f x of
        Inl e \<Rightarrow> Inl e
      | Inr y \<Rightarrow> (case traverse f xs of Inl e \<Rightarrow> Inl e | Inr ys \<Rightarrow> Inr (y # ys)))"

text \<open>
  Iterating a value (\<^verbatim>\<open>for x in v\<close>): a list yields its items, a string its characters,
  a dict its keys; \<^verbatim>\<open>None\<close>, booleans and numbers are not iterable.
\<close>

fun py_iter :: "json \<Rightarrow> error + json list" where
  "py_iter (JArray xs) = Inr xs"
| "py_iter (JString s) = Inr (map (\<lambda>c. JString [c]) s)"
| "py_iter (JObject kvs) = Inr (map (\<lambda>kv. JString (fst kv)) kvs)"
| "py_iter _ = Inl TypeError"

text \<open>\<^verbatim>\<open>data.get(key, default)\<close> and \<^verbatim>\<open>data[key]\<close> with a string key.\<close>

definition dict_get :: "(string \<times> json) list \<Rightarrow> string \<Rightarrow> json \<Rightarrow> json" where
  "dict_get kvs k d = (case map_of kvs k of None \<Rightarrow> d | Some v \<Rightarrow> v)"

fun py_get :: "json \<Rightarrow> string \<Rightarrow> json \<Rightarrow> error + json" where
  "py_get (JObject kvs) k d = Inr (dict_get kvs k d)"
| "py_get _ k d = Inl AttributeError"

fun py_getitem :: "json \<Rightarrow> string \<Rightarrow> error + json" where
  "py_getitem (JObject kvs) k = (case map_of kvs k of None \<Rightarrow> Inl (KeyError k) | Some v \<Rightarrow> Inr v)"
| "py_getitem _ k = Inl TypeError"

text \<open>
  \<^verbatim>\<open>s.find(c)\<close> and \<^verbatim>\<open>s.rfind(c)\<close> for a one-character \<open>c\<close>: the index of the first
  (last) occurrence, or \<open>-1\<close>. \<open>slice s a b\<close> is \<^verbatim>\<open>s[a:b]\<close> for indices that are not
  negative.
\<close>

fun str_find :: "char \<Rightarrow> string \<Rightarrow> int" where
  "str_find c [] = - 1"
| "str_find c (x # xs) =
     (if x = c then 0 else (let r = str_find c xs in if r = - 1 then - 1 else r + 1))"

definition str_rfind :: "char \<Rightarrow> string \<Rightarrow> int" where
  "str_rfind c s =
     (let r = str_find c (rev s) in if r = - 1 then - 1 else int (length s) - 1 - r)"

definition slice :: "string \<Rightarrow> int \<Rightarrow> int \<Rightarrow> string" where
  "slice s a b = drop (nat a) (take (nat b) s)"

section \<open>The extraction records (method_extractor.py)\<close>

text \<open>
  The dataclasses \<^verbatim>\<open>ComputationalMethod\<close>, \<^verbatim>\<open>Dataset\<close>, \<^verbatim>\<open>Workflow\<close> and
  \<^verbatim>\<open>ExtractedMethods\<close>. A dataclass does not check its annotations: the constructor
  stores whatever value each keyword carries, so a field holds a \<open>json\<close> value. The
  annotated types (\<^verbatim>\<open>str\<close>, \<^verbatim>\<open>List[str]\<close>, \<^verbatim>\<open>Dict[str, str]\<close>, \<^verbatim>\<open>Optional[str]\<close>)
  are stated by the predicates \<open>wt_\<dots>\<close> below. Field names carry a prefix for the class
  (\<open>cm_\<close>, \<open>ds_\<close>, \<open>wf_\<close>), since several classes have a field \<^verbatim>\<open>name\<close>.
\<close>

record ComputationalMethod =
  cm_name :: json
  cm_description :: json
  cm_software_tools :: json
  cm_programming_languages :: json
  cm_parameters :: json
  cm_category :: json

record Dataset =
  ds_name :: json
  ds_description :: json
  ds_source :: json
  ds_format :: json
  ds_size :: json

record Workflow =
  wf_name :: json
  wf_steps :: json
  wf_input_data :: json
  wf_output_data :: json
  wf_dependencies :: json

record ExtractedMethods =
  computational_methods :: "ComputationalMethod list"
  datasets :: "Dataset list"
  workflows :: "Workflow list"
  key_findings :: json
  reproducibility_notes :: json

definition is_str :: "json \<Rightarrow> bool" where
  "is_str v = (case v of JString s \<Rightarrow> True | _ \<Rightarrow> False)"

definition is_str_list :: "json \<Rightarrow> bool" where
  "is_str_list v = (case v of JArray xs \<Rightarrow> list_all is_str xs | _ \<Rightarrow> False)"

definition is_str_dict :: "json \<Rightarrow> bool" where
  "is_str_dict v =
     (case v of JObject kvs \<Rightarrow> distinct (map fst kvs) \<and> list_all (\<lambda>kv. is_str (snd kv)) kvs
      | _ \<Rightarrow> False)"

definition wt_ComputationalMethod :: "ComputationalMethod \<Rightarrow> bool" where
  "wt_ComputationalMethod m \<longleftrightarrow>
     is_str (cm_name m) \<and> is_str (cm_description m) \<and> is_str_list (cm_software_tools m) \<and>
     is_str_list (cm_programming_languages m) \<and> is_str_dict (cm_parameters m) \<and>
     is_str (cm_category m)"

definition wt_Dataset :: "Dataset \<Rightarrow> bool" where
  "wt_Dataset d \<longleftrightarrow>
     is_str (ds_name d) \<and> is_str (ds_description d) \<and> is_str (ds_source d) \<and>
     is_str (ds_format d) \<and> (ds_size d = JNull \<or> is_str (ds_size d))"

definition wt_Workflow :: "Workflow \<Rightarrow> bool" where
  "wt_Workflow w \<longleftrightarrow>
     is_str (wf_name w) \<and> is_str_list (wf_steps w) \<and> is_str_list (wf_input_data w) \<and>
     is_str_list (wf_output_data w) \<and> is_str_list (wf_dependencies w)"

definition wt_ExtractedMethods :: "ExtractedMethods \<Rightarrow> bool" where
  "wt_ExtractedMethods r \<longleftrightarrow>
     list_all wt_ComputationalMethod (computational_methods r) \<and>
     list_all wt_Dataset (datasets r) \<and> list_all wt_Workflow (workflows r) \<and>
     is_str_list (key_findings r) \<and> is_str (reproducibility_notes r)"

subsection \<open>Construction from keyword arguments\<close>

text \<open>
  A dataclass \<open>C\<close> called with the keywords of \<open>kw\<close>: a keyword that is no field of \<open>C\<close>, or a field
  without default that \<open>kw\<close> lacks, raises \<^verbatim>\<open>TypeError\<close>; so does a \<open>kw\<close> that is no
  dict. Only \<^verbatim>\<open>Dataset.size\<close> has a default (\<^verbatim>\<open>None\<close>).
\<close>

definition accepts :: "string list \<Rightarrow> string list \<Rightarrow> (string \<times> json) list \<Rightarrow> bool" where
  "accepts required optional kw \<longleftrightarrow>
     list_all (\<lambda>k. k \<in> set required \<or> k \<in> set optional) (map fst kw) \<and>
     list_all (\<lambda>f. f \<in> set (map fst kw)) required"

definition fields_ComputationalMethod :: "string list" where
  "fields_ComputationalMethod =
     [''name'', ''description'', ''software_tools'', ''programming_languages'',
      ''parameters'', ''category'']"

definition required_Dataset :: "string list" where
  "required_Dataset = [''name'', ''description'', ''source'', ''format'']"

definition fields_Workflow :: "string list" where
  "fields_Workflow = [''name'', ''steps'', ''input_data'', ''output_data'', ''dependencies'']"

fun init_ComputationalMethod :: "json \<Rightarrow> error + ComputationalMethod" where
  "init_ComputationalMethod (JObject kw) =
     (if accepts fields_ComputationalMethod [] kw
      then Inr \<lparr>cm_name = the (map_of kw ''name''),
                cm_description = the (map_of kw ''description''),
                cm_software_tools = the (map_of kw ''software_tools''),
                cm_programming_languages = the (map_of kw ''programming_languages''),
                cm_parameters = the (map_of kw ''parameters''),
                cm_category = the (map_of kw ''category'')\<rparr>
      else Inl TypeError)"
| "init_ComputationalMethod _ = Inl TypeError"

fun init_Dataset :: "json \<Rightarrow> error + Dataset" where
  "init_Dataset (JObject kw) =
     (if accepts required_Dataset [''size''] kw
      then Inr \<lparr>ds_name = the (map_of kw ''name''),
                ds_description = the (map_of kw ''description''),
                ds_source = the (map_of kw ''source''),
                ds_format = the (map_of kw ''format''),
                ds_size = (case map_of kw ''size'' of None \<Rightarrow> JNull | Some v \<Rightarrow> v)\<rparr>
      else Inl TypeError)"
| "init_Dataset _ = Inl TypeError"

fun init_Workflow :: "json \<Rightarrow> error + Workflow" where
  "init_Workflow (JObject kw) =
     (if accepts fields_Workflow [] kw
      then Inr \<lparr>wf_name = the (map_of kw ''name''),
                wf_steps = the (map_of kw ''steps''),
                wf_input_data = the (map_of kw ''input_data''),
                wf_output_data = the (map_of kw ''output_data''),
                wf_dependencies = the (map_of kw ''dependencies'')\<rparr>
      else Inl TypeError)"
| "init_Workflow _ = Inl TypeError"

subsection \<open>MethodExtractor\<close>

text \<open>
  The remote service is a parameter \<open>gw\<close>: \<open>gw max_tokens prompt\<close> is the text of the
  reply (\<^verbatim>\<open>response.content[0].text\<close>), or the exception raised on the way to it.
  \<^verbatim>\<open>json.loads\<close> is the parameter \<open>loads\<close>, with \<open>None\<close> for \<^verbatim>\<open>JSONDecodeError\<close>.
  Methods whose Python name starts with an underscore lose it here.
\<close>

type_synonym gateway = "nat \<Rightarrow> string \<Rightarrow> error + string"

definition create_extraction_prompt :: "string \<Rightarrow> string \<Rightarrow> string" where
  "create_extraction_prompt paper_text paper_title =
     ''\<newline>'' @
     ''Analyze the following research paper and extract computational methods, datasets, and workflows in a structured JSON format.\<newline>'' @
     ''\<newline>'' @
     ''Paper Title: '' @
     paper_title @
     ''\<newline>'' @
     ''\<newline>'' @
     ''Paper Text:\<newline>'' @
     take 15000 paper_text @
     ''  # Limit text to avoid token limits\<newline>'' @
     ''\<newline>'' @
     ''Please extract and structure the following information as a JSON object:\<newline>'' @
     ''\<newline>'' @
     ''1. **Computational Methods**: Identify all computational approaches, algorithms, statistical methods, and analysis techniques used. For each method include:\<newline>'' @
     ''   - name: The name/type of method\<newline>'' @
     ''   - description: Brief description of what it does\<newline>'' @
     ''   - software_tools: List of software/tools mentioned (e.g., R, Python, MATLAB, specific packages)\<newline>'' @
     ''   - programming_languages: Languages used\<newline>'' @
     ''   - parameters: Key parameters or settings mentioned\<newline>'' @
     ''   - category: Type of analysis (statistical_analysis, machine_learning, bioinformatics, image_analysis, etc.)\<newline>'' @
     ''\<newline>'' @
     ''2. **Datasets**: Identify all datasets used. For each dataset include:\<newline>'' @
     ''   - name: Dataset name or identifier\<newline>'' @
     ''   - description: What the dataset contains\<newline>'' @
     ''   - source: Where it came from (database, experiment, etc.)\<newline>'' @
     ''   - format: File format or data type\<newline>'' @
     ''   - size: Size if mentioned\<newline>'' @
     ''\<newline>'' @
     ''3. **Workflows**: Identify analysis workflows or pipelines. For each workflow include:\<newline>'' @
     ''   - name: Workflow name or purpose\<newline>'' @
     ''   - steps: Ordered list of analysis steps\<newline>'' @
     ''   - input_data: What data goes in\<newline>'' @
     ''   - output_data: What results are produced\<newline>'' @
     ''   - dependencies: Required software/tools\<newline>'' @
     ''\<newline>'' @
     ''4. **Key Findings**: List the main computational/methodological findings or results\<newline>'' @
     ''\<newline>'' @
     ''5. **Reproducibility Notes**: Any notes about code availability, data sharing, or reproducibility\<newline>'' @
     ''\<newline>'' @
     ''Return your response as a valid JSON object with the following structure:\<newline>'' @
     ''{\<newline>'' @
     ''  \"computational_methods\": [\<newline>'' @
     ''    {\<newline>'' @
     ''      \"name\": \"string\",\<newline>'' @
     ''      \"description\": \"string\",\<newline>'' @
     ''      \"software_tools\": [\"string\"],\<newline>'' @
     ''      \"programming_languages\": [\"string\"],\<newline>'' @
     ''      \"parameters\": {\"param\": \"value\"},\<newline>'' @
     ''      \"category\": \"string\"\<newline>'' @
     ''    }\<newline>'' @
     ''  ],\<newline>'' @
     ''  \"datasets\": [\<newline>'' @
     ''    {\<newline>'' @
     ''      \"name\": \"string\",\<newline>'' @
     ''      \"description\": \"string\",\<newline>'' @
     ''      \"source\": \"string\",\<newline>'' @
     ''      \"format\": \"string\",\<newline>'' @
     ''      \"size\": \"string\"\<newline>'' @
     ''    }\<newline>'' @
     ''  ],\<newline>'' @
     ''  \"workflows\": [\<newline>'' @
     ''    {\<newline>'' @
     ''      \"name\": \"string\",\<newline>'' @
     ''      \"steps\": [\"string\"],\<newline>'' @
     ''      \"input_data\": [\"string\"],\<newline>'' @
     ''      \"output_data\": [\"string\"],\<newline>'' @
     ''      \"dependencies\": [\"string\"]\<newline>'' @
     ''    }\<newline>'' @
     ''  ],\<newline>'' @
     ''  \"key_findings\": [\"string\"],\<newline>'' @
     ''  \"reproducibility_notes\": \"string\"\<newline>'' @
     ''}\<newline>'' @
     ''\<newline>'' @
     ''Focus on extracting concrete, actionable information that could be used to reproduce the computational aspects of the research.\<newline>''"

definition parse_items :: "(json \<Rightarrow> error + 'a) \<Rightarrow> json \<Rightarrow> error + 'a list" where
  "parse_items init v = ebind (py_iter v) (traverse init)"

text \<open>
  \<open>parse_body\<close> is the \<^verbatim>\<open>try\<close> block of \<^verbatim>\<open>_parse_extraction_result\<close>; the two handlers
  of \<open>parse_extraction_result\<close> re-raise a \<^verbatim>\<open>JSONDecodeError\<close> and every other
  exception as a plain \<^verbatim>\<open>Exception\<close>.
\<close>

definition parse_body :: "(string \<Rightarrow> json option) \<Rightarrow> string \<Rightarrow> error + ExtractedMethods" where
  "parse_body loads result_text =
     (let json_start = str_find CHR ''{'' result_text;
          json_end = str_rfind CHR ''}'' result_text + 1
      in if json_start = - 1 \<or> json_end = 0
         then Inl (ValueError ''No JSON found in response'')
         else (case loads (slice result_text json_start json_end) of
                 None \<Rightarrow> Inl JSONDecodeError
               | Some data \<Rightarrow>
                   ebind (ebind (py_get data ''computational_methods'' (JArray []))
                                (parse_items init_ComputationalMethod)) (\<lambda>ms.
                   ebind (ebind (py_get data ''datasets'' (JArray []))
                                (parse_items init_Dataset)) (\<lambda>ds.
                   ebind (ebind (py_get data ''workflows'' (JArray []))
                                (parse_items init_Workflow)) (\<lambda>ws.
                   ebind (py_get data ''key_findings'' (JArray [])) (\<lambda>kf.
                   ebind (py_get data ''reproducibility_notes'' (JString [])) (\<lambda>rn.
                   Inr \<lparr>computational_methods = ms, datasets = ds, workflows = ws,
                        key_findings = kf, reproducibility_notes = rn\<rparr>)))))))"

definition parse_extraction_result ::
  "(string \<Rightarrow> json option) \<Rightarrow> string \<Rightarrow> error + ExtractedMethods" where
  "parse_extraction_result loads result_text =
     (case parse_body loads result_text of
        Inl JSONDecodeError \<Rightarrow> Inl (Exception ''Failed to parse JSON response: '' JSONDecodeError)
      | Inl e \<Rightarrow> Inl (Exception ''Failed to parse extraction result: '' e)
      | Inr r \<Rightarrow> Inr r)"

definition extract_methods ::
  "gateway \<Rightarrow> (string \<Rightarrow> json option) \<Rightarrow> string \<Rightarrow> string \<Rightarrow> error + ExtractedMethods" where
  "extract_methods gw loads paper_text paper_title =
     (let prompt = create_extraction_prompt paper_text paper_title
      in case ebind (gw 4000 prompt) (parse_extraction_result loads) of
           Inl e \<Rightarrow> Inl (Exception ''Failed to extract methods using Claude: '' e)
         | Inr r \<Rightarrow> Inr r)"

subsection \<open>Persistence\<close>

text \<open>
  \<^verbatim>\<open>asdict\<close> turns an instance into a dict of its fields, in declaration order, and
  copies the values. The file system is a map from paths to the JSON documents stored
  there; \<^verbatim>\<open>json.dump\<close> followed by \<^verbatim>\<open>json.load\<close> gives back the value written.
\<close>

definition asdict_ComputationalMethod :: "ComputationalMethod \<Rightarrow> json" where
  "asdict_ComputationalMethod m =
     JObject [(''name'', cm_name m), (''description'', cm_description m),
              (''software_tools'', cm_software_tools m),
              (''programming_languages'', cm_programming_languages m),
              (''parameters'', cm_parameters m), (''category'', cm_category m)]"

definition asdict_Dataset :: "Dataset \<Rightarrow> json" where
  "asdict_Dataset d =
     JObject [(''name'', ds_name d), (''description'', ds_description d),
              (''source'', ds_source d), (''format'', ds_format d), (''size'', ds_size d)]"

definition asdict_Workflow :: "Workflow \<Rightarrow> json" where
  "asdict_Workflow w =
     JObject [(''name'', wf_name w), (''steps'', wf_steps w), (''input_data'', wf_input_data w),
              (''output_data'', wf_output_data w), (''dependencies'', wf_dependencies w)]"

definition asdict_ExtractedMethods :: "ExtractedMethods \<Rightarrow> json" where
  "asdict_ExtractedMethods r =
     JObject [(''computational_methods'',
                 JArray (map asdict_ComputationalMethod (computational_methods r))),
              (''datasets'', JArray (map asdict_Dataset (datasets r))),
              (''workflows'', JArray (map asdict_Workflow (workflows r))),
              (''key_findings'', key_findings r),
              (''reproducibility_notes'', reproducibility_notes r)]"

type_synonym files = "string \<rightharpoonup> json"

definition save_extracted_methods :: "files \<Rightarrow> ExtractedMethods \<Rightarrow> string \<Rightarrow> files" where
  "save_extracted_methods fs methods output_path =
     fs(output_path \<mapsto> asdict_ExtractedMethods methods)"

definition load_extracted_methods :: "files \<Rightarrow> string \<Rightarrow> error + ExtractedMethods" where
  "load_extracted_methods fs input_path =
     (case fs input_path of
        None \<Rightarrow> Inl (FileNotFoundError input_path)
      | Some data \<Rightarrow>
          ebind (ebind (py_getitem data ''computational_methods'')
                       (parse_items init_ComputationalMethod)) (\<lambda>ms.
          ebind (ebind (py_getitem data ''datasets'') (parse_items init_Dataset)) (\<lambda>ds.
          ebind (ebind (py_getitem data ''workflows'') (parse_items init_Workflow)) (\<lambda>ws.
          ebind (py_getitem data ''key_findings'') (\<lambda>kf.
          ebind (py_getitem data ''reproducibility_notes'') (\<lambda>rn.
          Inr \<lparr>computational_methods = ms, datasets = ds, workflows = ws,
               key_findings = kf, reproducibility_notes = rn\<rparr>))))))"


subsection \<open>Notions used to state the properties of the extraction\<close>

text \<open>
  The JSON value embedded in a reply: what \<open>loads\<close> makes of the text from the first
  opening brace to the last closing brace, when the reply has both.
\<close>

definition embedded_json :: "(string \<Rightarrow> json option) \<Rightarrow> string \<Rightarrow> json option" where
  "embedded_json loads reply =
     (if str_find CHR ''{'' reply = - 1 \<or> str_rfind CHR ''}'' reply = - 1 then None
      else loads (slice reply (str_find CHR ''{'' reply) (str_rfind CHR ''}'' reply + 1)))"

text \<open>
  An item is malformed for a dataclass when it carries a keyword that is no field, or
  lacks a field that has no default. A value is constructible when it is a list of
  dicts none of which is malformed.
\<close>

definition malformed :: "string list \<Rightarrow> string list \<Rightarrow> (string \<times> json) list \<Rightarrow> bool" where
  "malformed required optional kw \<longleftrightarrow>
     (\<exists>k \<in> set (map fst kw). k \<notin> set required \<and> k \<notin> set optional) \<or>
     (\<exists>f \<in> set required. f \<notin> set (map fst kw))"

definition constructible :: "string list \<Rightarrow> string list \<Rightarrow> json \<Rightarrow> bool" where
  "constructible required optional v =
     (case v of
        JArray items \<Rightarrow>
          list_all (\<lambda>it. case it of JObject kw \<Rightarrow> accepts required optional kw | _ \<Rightarrow> False) items
      | _ \<Rightarrow> False)"

text \<open>The exceptions that the handler of \<^verbatim>\<open>extract_methods\<close> raises.\<close>

definition raised_by_extract_methods :: "error \<Rightarrow> bool" where
  "raised_by_extract_methods e =
     (case e of Exception p inner \<Rightarrow> p = ''Failed to extract methods using Claude: '' | _ \<Rightarrow> False)"

text \<open>
  Concrete services and replies for the examples: a gateway that always answers with one
  reply, one that always raises, and a decoder that knows a single document (\<open>doc\<close> is
  JSON text and \<open>v\<close> the value \<^verbatim>\<open>json.loads\<close> gives for it).
\<close>

definition fixed_gateway :: "string \<Rightarrow> gateway" where
  "fixed_gateway reply = (\<lambda>max_tokens prompt. Inr reply)"

definition failing_gateway :: "error \<Rightarrow> gateway" where
  "failing_gateway e = (\<lambda>max_tokens prompt. Inl e)"

definition loads_only :: "string \<Rightarrow> json \<Rightarrow> string \<Rightarrow> json option" where
  "loads_only doc v s = (if s = doc then Some v else None)"

definition doc_no_size :: string where
  "doc_no_size = ''{\"datasets\": [{\"name\": \"d\", \"description\": \"x\", \"source\": \"s\", \"format\": \"csv\"}]}''"

definition kw_no_size :: "(string \<times> json) list" where
  "kw_no_size = [(''name'', JString ''d''), (''description'', JString ''x''),
                 (''source'', JString ''s''), (''format'', JString ''csv'')]"

definition doc_no_format :: string where
  "doc_no_format = ''{\"datasets\": [{\"name\": \"d\", \"description\": \"x\", \"source\": \"s\"}]}''"

definition kw_no_format :: "(string \<times> json) list" where
  "kw_no_format = [(''name'', JString ''d''), (''description'', JString ''x''),
                   (''source'', JString ''s'')]"

definition doc_misnamed :: string where
  "doc_misnamed = ''{\"datasets\": [{\"foo\": \"x\"}]}''"

definition datasets_only :: "(string \<times> json) list \<Rightarrow> (string \<times> json) list" where
  "datasets_only kw = [(''datasets'', JArray [JObject kw])]"

section \<open>The question-answering engine (qa_interface.py)\<close>

subsection \<open>Formatting and joining\<close>

text \<open>
  An f-string field \<^verbatim>\<open>{v}\<close> renders a string as itself and every other value as the
  interpreter prints it; that printing is the parameter \<open>repr\<close>. \<^verbatim>\<open>sep.join(v)\<close> iterates
  \<open>v\<close> and raises \<^verbatim>\<open>TypeError\<close> unless every item is a string.
\<close>

definition py_str :: "(json \<Rightarrow> string) \<Rightarrow> json \<Rightarrow> string" where
  "py_str repr v = (case v of JString s \<Rightarrow> s | _ \<Rightarrow> repr v)"

fun join :: "string \<Rightarrow> string list \<Rightarrow> string" where
  "join sep [] = []"
| "join sep [x] = x"
| "join sep (x # y # ys) = x @ sep @ join sep (y # ys)"

fun as_str :: "json \<Rightarrow> error + string" where
  "as_str (JString s) = Inr s"
| "as_str _ = Inl TypeError"

definition py_join :: "string \<Rightarrow> json \<Rightarrow> error + string" where
  "py_join sep v =
     ebind (py_iter v) (\<lambda>items. ebind (traverse as_str items) (\<lambda>ss. Inr (join sep ss)))"

text \<open>
  The message of an exception, \<^verbatim>\<open>str(e)\<close>: known for the exceptions that the code raises
  with a message of its own, and given by the parameter \<open>msg\<close> for those of the interpreter
  and the libraries.
\<close>

fun message :: "(error \<Rightarrow> string) \<Rightarrow> error \<Rightarrow> string" where
  "message msg (Exception p e) = p @ message msg e"
| "message msg (ValueError m) = m"
| "message msg (GatewayError m) = m"
| "message msg e = msg e"

subsection \<open>Records and state\<close>

text \<open>
  \<^verbatim>\<open>PaperMetadata\<close> comes from the ingestion engine and is read with its annotated types.
  A \<^verbatim>\<open>QAExchange\<close> is built by the engine, from strings in \<^verbatim>\<open>_add_to_history\<close> and from
  unchecked JSON values in \<^verbatim>\<open>load_conversation\<close>, so its fields hold \<open>json\<close> values. Fields
  carry the prefixes \<open>pm_\<close> and \<open>qa_\<close>.

  Python lists are objects: \<^verbatim>\<open>self.conversation_history\<close> is a reference. The heap is the
  sequence of the list objects allocated so far, an address is an index into it, and a
  new list gets the next index. The world also records the requests sent to the remote
  service, as pairs of token budget and prompt.
\<close>

record PaperMetadata =
  pm_title :: string
  pm_authors :: "string list"
  pm_abstract :: string
  pm_doi :: string
  pm_pubmed_id :: string
  pm_journal :: string
  pm_year :: string
  pm_full_text :: string

record QAExchange =
  qa_question :: json
  qa_answer :: json
  qa_timestamp :: json
  qa_context_used :: json

record InteractiveQA =
  paper_metadata :: "PaperMetadata option"
  extracted_methods :: "ExtractedMethods option"
  conversation_history :: nat

record world =
  heap :: "QAExchange list list"
  requests :: "(nat \<times> string) list"

definition history :: "world \<Rightarrow> InteractiveQA \<Rightarrow> QAExchange list" where
  "history w self = heap w ! conversation_history self"

definition valid :: "world \<Rightarrow> InteractiveQA \<Rightarrow> bool" where
  "valid w self \<longleftrightarrow> conversation_history self < length (heap w)"

definition call :: "gateway \<Rightarrow> nat \<Rightarrow> string \<Rightarrow> world \<Rightarrow> (error + string) \<times> world" where
  "call gw max_tokens prompt w =
     (gw max_tokens prompt, w\<lparr>requests := requests w @ [(max_tokens, prompt)]\<rparr>)"

text \<open>
  \<^verbatim>\<open>__init__\<close>: fails without an API key, and otherwise starts with no context and a
  new, empty history list.
\<close>

definition init_InteractiveQA :: "string option \<Rightarrow> world \<Rightarrow> error + InteractiveQA \<times> world" where
  "init_InteractiveQA api_key w =
     (if api_key = None \<or> api_key = Some []
      then Inl (ValueError ''ANTHROPIC_API_KEY not found in environment variables'')
      else Inr (\<lparr>paper_metadata = None, extracted_methods = None,
                 conversation_history = length (heap w)\<rparr>,
                w\<lparr>heap := heap w @ [[]]\<rparr>))"


subsection \<open>The prompt\<close>

text \<open>
  The separator of the workflow steps is a space, the arrow U+2192 and a space; the
  arrow is written as the three bytes of its UTF-8 form.
\<close>

definition arrow_sep :: string where
  "arrow_sep = [CHR 0x20, CHR 0xE2, CHR 0x86, CHR 0x92, CHR 0x20]"

definition paper_context :: "PaperMetadata \<Rightarrow> string" where
  "paper_context pm =
     ''\<newline>'' @
     ''Paper Title: '' @
     pm_title pm @
     ''\<newline>'' @
     ''Authors: '' @
     join '', '' (pm_authors pm) @
     ''\<newline>'' @
     ''Journal: '' @
     pm_journal pm @
     '' ('' @
     pm_year pm @
     '')\<newline>'' @
     ''DOI: '' @
     pm_doi pm @
     ''\<newline>'' @
     ''\<newline>'' @
     ''Abstract:\<newline>'' @
     pm_abstract pm @
     ''\<newline>'' @
     ''\<newline>'' @
     ''Full Text (excerpt):\<newline>'' @
     take 8000 (pm_full_text pm) @
     ''  # Limit to avoid token limits\<newline>''"

definition method_block :: "(json \<Rightarrow> string) \<Rightarrow> ComputationalMethod \<Rightarrow> error + string" where
  "method_block repr m =
     ebind (py_join '', '' (cm_software_tools m)) (\<lambda>tools.
     ebind (py_join '', '' (cm_programming_languages m)) (\<lambda>langs.
     Inr (''\<newline>'' @
          ''- '' @
          py_str repr (cm_name m) @
          '':\<newline>'' @
          ''  Description: '' @
          py_str repr (cm_description m) @
          ''\<newline>'' @
          ''  Software Tools: '' @
          tools @
          ''\<newline>'' @
          ''  Programming Languages: '' @
          langs @
          ''\<newline>'' @
          ''  Parameters: '' @
          py_str repr (cm_parameters m) @
          ''\<newline>'' @
          ''  Category: '' @
          py_str repr (cm_category m) @
          ''\<newline>'')))"

definition dataset_block :: "(json \<Rightarrow> string) \<Rightarrow> Dataset \<Rightarrow> string" where
  "dataset_block repr d =
     ''\<newline>'' @
     ''- '' @
     py_str repr (ds_name d) @
     '':\<newline>'' @
     ''  Description: '' @
     py_str repr (ds_description d) @
     ''\<newline>'' @
     ''  Source: '' @
     py_str repr (ds_source d) @
     ''\<newline>'' @
     ''  Format: '' @
     py_str repr (ds_format d) @
     ''\<newline>''"

definition workflow_block :: "(json \<Rightarrow> string) \<Rightarrow> Workflow \<Rightarrow> error + string" where
  "workflow_block repr flow =
     ebind (py_join arrow_sep (wf_steps flow)) (\<lambda>steps.
     ebind (py_join '', '' (wf_input_data flow)) (\<lambda>ins.
     ebind (py_join '', '' (wf_output_data flow)) (\<lambda>outs.
     ebind (py_join '', '' (wf_dependencies flow)) (\<lambda>deps.
     Inr (''\<newline>'' @
          ''- '' @
          py_str repr (wf_name flow) @
          '':\<newline>'' @
          ''  Steps: '' @
          steps @
          ''\<newline>'' @
          ''  Input Data: '' @
          ins @
          ''\<newline>'' @
          ''  Output Data: '' @
          outs @
          ''\<newline>'' @
          ''  Dependencies: '' @
          deps @
          ''\<newline>'')))))"

definition datasets_context :: "(json \<Rightarrow> string) \<Rightarrow> Dataset list \<Rightarrow> string" where
  "datasets_context repr ds = ''Datasets Used:\<newline>'' @ concat (map (dataset_block repr) ds)"

text \<open>The last three exchanges, \<^verbatim>\<open>self.conversation_history[-3:]\<close>, oldest first.\<close>

definition exchange_block :: "(json \<Rightarrow> string) \<Rightarrow> QAExchange \<Rightarrow> string" where
  "exchange_block repr ex =
     ''Q: '' @ py_str repr (qa_question ex) @ ''\<newline>A: '' @ py_str repr (qa_answer ex) @
     ''\<newline>\<newline>''"

definition history_context :: "(json \<Rightarrow> string) \<Rightarrow> QAExchange list \<Rightarrow> string" where
  "history_context repr hist =
     (if hist = [] then []
      else ''Recent Conversation:\<newline>'' @
           concat (map (exchange_block repr) (drop (length hist - 3) hist)))"

definition create_qa_prompt ::
  "(json \<Rightarrow> string) \<Rightarrow> PaperMetadata \<Rightarrow> ExtractedMethods \<Rightarrow> QAExchange list \<Rightarrow> string \<Rightarrow>
   error + string" where
  "create_qa_prompt repr pm em hist question =
     ebind (traverse (method_block repr) (computational_methods em)) (\<lambda>mblocks.
     ebind (traverse (workflow_block repr) (workflows em)) (\<lambda>wblocks.
     ebind (py_join ''\<newline>'' (key_findings em)) (\<lambda>findings.
     let methods_context = ''Extracted Computational Methods:\<newline>'' @ concat mblocks;
         workflows_context = ''Analysis Workflows:\<newline>'' @ concat wblocks
     in Inr (''\<newline>'' @
             ''You are an expert research assistant helping to answer questions about a scientific paper'' @ [CHR 0x27] @ ''s methodology and computational approaches.\<newline>'' @
             ''\<newline>'' @
             paper_context pm @
             ''\<newline>'' @
             ''\<newline>'' @
             methods_context @
             ''\<newline>'' @
             ''\<newline>'' @
             datasets_context repr (datasets em) @
             ''\<newline>'' @
             ''\<newline>'' @
             workflows_context @
             ''\<newline>'' @
             ''\<newline>'' @
             history_context repr hist @
             ''\<newline>'' @
             ''\<newline>'' @
             ''Key Findings from the Paper:\<newline>'' @
             findings @
             ''\<newline>'' @
             ''\<newline>'' @
             ''Reproducibility Notes:\<newline>'' @
             py_str repr (reproducibility_notes em) @
             ''\<newline>'' @
             ''\<newline>'' @
             ''User Question: '' @
             question @
             ''\<newline>'' @
             ''\<newline>'' @
             ''Please provide a detailed, accurate answer based on the paper'' @ [CHR 0x27] @ ''s content and methodology. Focus on:\<newline>'' @
             ''1. Specific methodological details\<newline>'' @
             ''2. Computational approaches and parameters\<newline>'' @
             ''3. Data processing steps\<newline>'' @
             ''4. Software tools and implementations\<newline>'' @
             ''5. Reproducibility considerations\<newline>'' @
             ''\<newline>'' @
             ''If the question cannot be answered from the provided paper content, clearly state that and suggest what additional information might be needed.\<newline>''))))"

subsection \<open>Operations\<close>

text \<open>
  \<^verbatim>\<open>_add_to_history\<close> appends to the list in place; when the list then has more than ten
  entries, the slice \<^verbatim>\<open>[-10:]\<close> is a new list, and the attribute is bound to it.
\<close>

definition new_exchange :: "string \<Rightarrow> string \<Rightarrow> string \<Rightarrow> QAExchange" where
  "new_exchange now question answer =
     \<lparr>qa_question = JString question, qa_answer = JString answer, qa_timestamp = JString now,
      qa_context_used = JString ''paper_content_and_methods''\<rparr>"

definition add_to_history ::
  "string \<Rightarrow> string \<Rightarrow> string \<Rightarrow> InteractiveQA \<Rightarrow> world \<Rightarrow> InteractiveQA \<times> world" where
  "add_to_history now question answer self w =
     (let a = conversation_history self;
          exchange = new_exchange now question answer;
          h = (heap w)[a := heap w ! a @ [exchange]]
      in if length (h ! a) > 10
         then (self\<lparr>conversation_history := length h\<rparr>,
               w\<lparr>heap := h @ [drop (length (h ! a) - 10) (h ! a)]\<rparr>)
         else (self, w\<lparr>heap := h\<rparr>))"

text \<open>
  \<^verbatim>\<open>ask_question\<close>. The prompt is built before the \<^verbatim>\<open>try\<close> block, so an exception of
  \<open>create_qa_prompt\<close> is raised to the caller (\<open>Inl\<close>); an exception of the remote call
  is turned into the returned string. \<open>now\<close> is what the clock shows.
\<close>

definition ask_question ::
  "gateway \<Rightarrow> (json \<Rightarrow> string) \<Rightarrow> (error \<Rightarrow> string) \<Rightarrow> string \<Rightarrow> InteractiveQA \<Rightarrow> string \<Rightarrow> world \<Rightarrow>
   (error + string) \<times> InteractiveQA \<times> world" where
  "ask_question gw repr msg now self question w =
     (case (paper_metadata self, extracted_methods self) of
        (Some pm, Some em) \<Rightarrow>
          (case create_qa_prompt repr pm em (history w self) question of
             Inl e \<Rightarrow> (Inl e, self, w)
           | Inr prompt \<Rightarrow>
               (case call gw 2000 prompt w of
                  (Inl e, w1) \<Rightarrow> (Inr (''Error processing question: '' @ message msg e), self, w1)
                | (Inr answer, w1) \<Rightarrow>
                    (case add_to_history now question answer self w1 of
                       (self1, w2) \<Rightarrow> (Inr answer, self1, w2))))
      | _ \<Rightarrow> (Inr ''Please load a paper first before asking questions.'', self, w))"


definition clear_conversation :: "InteractiveQA \<Rightarrow> world \<Rightarrow> world" where
  "clear_conversation self w = w\<lparr>heap := (heap w)[conversation_history self := []]\<rparr>"

text \<open>
  \<^verbatim>\<open>load_conversation\<close> reads the document at the path and binds the history to a new
  list with one exchange per item of \<^verbatim>\<open>conversation_history\<close>.
\<close>

definition exchange_of_item :: "json \<Rightarrow> error + QAExchange" where
  "exchange_of_item item =
     ebind (py_getitem item ''question'') (\<lambda>q.
     ebind (py_getitem item ''answer'') (\<lambda>a.
     ebind (py_getitem item ''timestamp'') (\<lambda>t.
     Inr \<lparr>qa_question = q, qa_answer = a, qa_timestamp = t,
          qa_context_used = JString ''paper_content_and_methods''\<rparr>)))"

definition load_conversation ::
  "files \<Rightarrow> InteractiveQA \<Rightarrow> string \<Rightarrow> world \<Rightarrow> error + InteractiveQA \<times> world" where
  "load_conversation fs self input_path w =
     (case fs input_path of
        None \<Rightarrow> Inl (FileNotFoundError input_path)
      | Some data \<Rightarrow>
          ebind (py_getitem data ''conversation_history'') (\<lambda>v.
          ebind (py_iter v) (\<lambda>items.
          ebind (traverse exchange_of_item items) (\<lambda>exchanges.
          Inr (self\<lparr>conversation_history := length (heap w)\<rparr>,
               w\<lparr>heap := heap w @ [exchanges]\<rparr>)))))"


text \<open>A run of questions, each with the time at which it is asked; the answers are collected.\<close>

fun ask_all ::
  "gateway \<Rightarrow> (json \<Rightarrow> string) \<Rightarrow> (error \<Rightarrow> string) \<Rightarrow> (string \<times> string) list \<Rightarrow> InteractiveQA \<Rightarrow> world \<Rightarrow>
   (error + string) list \<times> InteractiveQA \<times> world" where
  "ask_all gw repr msg [] self w = ([], self, w)"
| "ask_all gw repr msg ((now, question) # rest) self w =
     (case ask_question gw repr msg now self question w of
        (r, self1, w1) \<Rightarrow>
          (case ask_all gw repr msg rest self1 w1 of
             (rs, self2, w2) \<Rightarrow> (r # rs, self2, w2)))"




definition fresh_world :: world where
  "fresh_world = \<lparr>heap = [[]], requests = []\<rparr>"

definition fresh_engine :: InteractiveQA where
  "fresh_engine = \<lparr>paper_metadata = None, extracted_methods = None, conversation_history = 0\<rparr>"


definition saved_item :: json where
  "saved_item =
     JObject [(''question'', JString ''q''), (''answer'', JString ''a''),
              (''timestamp'', JString ''2024-01-01T00:00:00'')]"

definition saved_conversation :: "nat \<Rightarrow> json" where
  "saved_conversation n =
     JObject [(''paper_metadata'',
                 JObject [(''title'', JNull), (''authors'', JArray []), (''doi'', JNull)]),
              (''conversation_history'', JArray (replicate n saved_item))]"

text \<open>The exchanges that a run of answered questions appends.\<close>

definition exchanges_of :: "(string \<times> string) list \<Rightarrow> (error + string) list \<Rightarrow> QAExchange list" where
  "exchanges_of qs rs = map (\<lambda>(nq, r). new_exchange (fst nq) (snd nq) (projr r)) (zip qs rs)"

section \<open>The code generator (code_generator.py)\<close>

text \<open>
  A \<^verbatim>\<open>GeneratedCode\<close> is built from strings only; its fields carry the prefix \<open>gc_\<close>.
\<close>

record GeneratedCode =
  gc_script_content :: string
  gc_language :: string
  gc_dependencies :: "string list"
  gc_description :: string
  gc_usage_instructions :: string

subsection \<open>Grouping by category\<close>

text \<open>
  \<^verbatim>\<open>methods_by_category\<close> is a dict keyed by the category values, kept here as the list
  of its items in insertion order. A list or a dict cannot be a key (\<^verbatim>\<open>TypeError\<close>). Two
  keys are the same when Python finds them equal: numbers and booleans by their value,
  everything else by structure.
\<close>

fun hashable :: "json \<Rightarrow> bool" where
  "hashable (JArray xs) = False"
| "hashable (JObject kvs) = False"
| "hashable _ = True"






subsection \<open>Template and prompt\<close>

text \<open>
  \<open>templates\<close> is the dict that \<^verbatim>\<open>_load_templates\<close> reads from the template directory,
  from template name to file content.
\<close>

definition category_mapping :: "(string \<times> string) list" where
  "category_mapping =
     [(''statistical_analysis'', ''statistical_analysis''),
      (''machine_learning'', ''machine_learning''),
      (''bioinformatics'', ''bioinformatics''),
      (''data_analysis'', ''statistical_analysis''),
      (''image_analysis'', ''statistical_analysis'')]"

definition get_template_for_category :: "(string \<rightharpoonup> string) \<Rightarrow> json \<Rightarrow> error + string" where
  "get_template_for_category templates category =
     (if \<not> hashable category then Inl TypeError
      else let template_name =
                 (case category of
                    JString c \<Rightarrow>
                      (case map_of category_mapping c of
                         Some t \<Rightarrow> t
                       | None \<Rightarrow> ''statistical_analysis'')
                  | _ \<Rightarrow> ''statistical_analysis'')
           in Inr (case templates template_name of Some t \<Rightarrow> t | None \<Rightarrow> []))"

text \<open>The decimal digits of a number, as \<^verbatim>\<open>{i+1}\<close> prints it.\<close>

fun show_nat :: "nat \<Rightarrow> string" where
  "show_nat n =
     (if n < 10 then [char_of (48 + n)] else show_nat (n div 10) @ [char_of (48 + n mod 10)])"

declare show_nat.simps [simp del]

definition method_item :: "(json \<Rightarrow> string) \<Rightarrow> ComputationalMethod \<Rightarrow> error + string" where
  "method_item repr m =
     ebind (py_join '', '' (cm_software_tools m)) (\<lambda>tools.
     Inr (''- '' @ py_str repr (cm_name m) @ '': '' @ py_str repr (cm_description m) @
          ''\<newline>'' @
          ''  Tools: '' @ tools @ ''\<newline>'' @
          ''  Parameters: '' @ py_str repr (cm_parameters m) @ ''\<newline>''))"

definition dataset_item :: "(json \<Rightarrow> string) \<Rightarrow> Dataset \<Rightarrow> string" where
  "dataset_item repr d =
     ''- '' @ py_str repr (ds_name d) @ '': '' @ py_str repr (ds_description d) @
     '' (Format: '' @ py_str repr (ds_format d) @ '')''"

definition workflow_item :: "(json \<Rightarrow> string) \<Rightarrow> Workflow \<Rightarrow> error + string" where
  "workflow_item repr flow =
     ebind (py_iter (wf_steps flow)) (\<lambda>steps.
     Inr (''- '' @ py_str repr (wf_name flow) @ '':\<newline>'' @
          join ''\<newline>''
            (map (\<lambda>(i, step). ''  '' @ show_nat (i + 1) @ ''. '' @ py_str repr step)
                 (enumerate 0 steps))))"

definition create_code_generation_prompt ::
  "(json \<Rightarrow> string) \<Rightarrow> json \<Rightarrow> ComputationalMethod list \<Rightarrow> ExtractedMethods \<Rightarrow> string \<Rightarrow> string \<Rightarrow>
   string \<Rightarrow> error + string" where
  "create_code_generation_prompt repr category methods em paper_title lang template =
     ebind (traverse (method_item repr) methods) (\<lambda>mitems.
     ebind (traverse (workflow_item repr) (workflows em)) (\<lambda>witems.
     let methods_text = join ''\<newline>'' mitems;
         datasets_text = join ''\<newline>'' (map (dataset_item repr) (datasets em));
         workflows_text = join ''\<newline>'' witems
     in Inr (''\<newline>'' @
          ''Generate a complete '' @
          lang @
          '' script that reproduces the computational analysis from this research paper.\<newline>'' @
          ''\<newline>'' @
          ''Paper Title: '' @
          paper_title @
          ''\<newline>'' @
          ''\<newline>'' @
          ''Category: '' @
          py_str repr category @
          ''\<newline>'' @
          ''\<newline>'' @
          ''Methods to implement:\<newline>'' @
          methods_text @
          ''\<newline>'' @
          ''\<newline>'' @
          ''Available Datasets:\<newline>'' @
          datasets_text @
          ''\<newline>'' @
          ''\<newline>'' @
          ''Analysis Workflows:\<newline>'' @
          workflows_text @
          ''\<newline>'' @
          ''\<newline>'' @
          ''Template (modify and extend as needed):\<newline>'' @
          template @
          ''\<newline>'' @
          ''\<newline>'' @
          ''Requirements:\<newline>'' @
          ''1. Create a complete, runnable script in '' @
          lang @
          ''\<newline>'' @
          ''2. Include all necessary imports and dependencies\<newline>'' @
          ''3. Implement the specific methods mentioned above\<newline>'' @
          ''4. Add data loading functions that work with the specified dataset formats\<newline>'' @
          ''5. Include proper error handling and logging\<newline>'' @
          ''6. Add visualization functions where appropriate\<newline>'' @
          ''7. Include parameter settings that match those described in the paper\<newline>'' @
          ''8. Add comprehensive comments explaining each step\<newline>'' @
          ''9. Make the code modular and reusable\<newline>'' @
          ''10. Include example usage at the bottom\<newline>'' @
          ''\<newline>'' @
          ''Return your response in this format:\<newline>'' @
          ''\<newline>'' @
          ''```'' @
          lang @
          ''\<newline>'' @
          ''[COMPLETE SCRIPT CODE HERE]\<newline>'' @
          ''```\<newline>'' @
          ''\<newline>'' @
          ''DEPENDENCIES:\<newline>'' @
          ''[LIST ALL REQUIRED PACKAGES/LIBRARIES]\<newline>'' @
          ''\<newline>'' @
          ''DESCRIPTION:\<newline>'' @
          ''[BRIEF DESCRIPTION OF WHAT THE SCRIPT DOES]\<newline>'' @
          ''\<newline>'' @
          ''USAGE:\<newline>'' @
          ''[INSTRUCTIONS ON HOW TO RUN THE SCRIPT]\<newline>'' @
          ''\<newline>'' @
          ''Focus on creating production-ready code that closely follows the methodology described in the paper.\<newline>'')))"

subsection \<open>Parsing the reply\<close>

text \<open>
  The searches of \<^verbatim>\<open>_parse_code_generation_result\<close> are regular expression searches for
  literal texts around a lazy \<^verbatim>\<open>(.*?)\<close>. Under \<^verbatim>\<open>IGNORECASE\<close> two characters match when
  they are the same letter in either case; \<^verbatim>\<open>\s\<close> and \<^verbatim>\<open>strip\<close> share one notion of white
  space; \<^verbatim>\<open>$\<close> matches at the end of the text and before a newline that ends it.
\<close>

definition lower :: "char \<Rightarrow> char" where
  "lower c =
     (if 65 \<le> (of_char c :: nat) \<and> (of_char c :: nat) \<le> 90 then char_of (of_char c + 32 :: nat)
      else c)"

definition ci :: "char \<Rightarrow> char \<Rightarrow> bool" where
  "ci p c \<longleftrightarrow> lower p = lower c"

definition is_space :: "char \<Rightarrow> bool" where
  "is_space c \<longleftrightarrow> (of_char c :: nat) \<in> {9, 10, 11, 12, 13, 28, 29, 30, 31, 32, 133, 160}"

definition strip :: "string \<Rightarrow> string" where
  "strip s = rev (dropWhile is_space (rev (dropWhile is_space s)))"

fun split_on :: "char \<Rightarrow> string \<Rightarrow> string list" where
  "split_on c [] = [[]]"
| "split_on c (x # xs) =
     (if x = c then [] # split_on c xs
      else (case split_on c xs of y # ys \<Rightarrow> (x # y) # ys | [] \<Rightarrow> [[x]]))"

text \<open>
  \<open>prefix_by eq pat s\<close>: the literal \<open>pat\<close> matches at the start of \<open>s\<close>, characters
  compared by \<open>eq\<close>. \<open>find_by eq pat s\<close> is the first position where it matches.
\<close>

fun prefix_by :: "(char \<Rightarrow> char \<Rightarrow> bool) \<Rightarrow> string \<Rightarrow> string \<Rightarrow> bool" where
  "prefix_by eq [] s = True"
| "prefix_by eq (p # ps) [] = False"
| "prefix_by eq (p # ps) (c # cs) = (eq p c \<and> prefix_by eq ps cs)"

fun find_by :: "(char \<Rightarrow> char \<Rightarrow> bool) \<Rightarrow> string \<Rightarrow> string \<Rightarrow> nat option" where
  "find_by eq pat [] = (if pat = [] then Some 0 else None)"
| "find_by eq pat (c # cs) =
     (if prefix_by eq pat (c # cs) then Some 0 else map_option Suc (find_by eq pat cs))"

text \<open>
  A search for \<open>tag\<close>, a lazy group and a closing fence: the group of the leftmost match
  is the text between the first \<open>tag\<close> and the first fence after it.
\<close>

definition search_block :: "(char \<Rightarrow> char \<Rightarrow> bool) \<Rightarrow> string \<Rightarrow> string \<Rightarrow> string option" where
  "search_block eq tag s =
     (case find_by eq tag s of
        None \<Rightarrow> None
      | Some i \<Rightarrow>
          (let rest = drop (i + length tag) s
           in case find_by (=) ''```'' rest of None \<Rightarrow> None | Some j \<Rightarrow> Some (take j rest)))"

text \<open>
  A search for a label, white space and a lazy group that ends before the first of
  the \<open>stops\<close> or where \<^verbatim>\<open>$\<close> matches.
\<close>

fun until_stop :: "string list \<Rightarrow> string \<Rightarrow> string" where
  "until_stop stops [] = []"
| "until_stop stops (c # cs) =
     (if list_ex (\<lambda>stop. prefix_by ci stop (c # cs)) stops \<or> c # cs = ''\<newline>'' then []
      else c # until_stop stops cs)"

definition search_section :: "string \<Rightarrow> string list \<Rightarrow> string \<Rightarrow> string option" where
  "search_section label stops s =
     (case find_by ci label s of
        None \<Rightarrow> None
      | Some i \<Rightarrow> Some (until_stop stops (dropWhile is_space (drop (i + length label) s))))"

text \<open>
  The pattern for the tagged block holds the language as it is. A language of letters
  and digits stands for itself in the pattern; for any other language the outcome of
  the search, which may be a pattern error, is given by the parameter \<open>fence\<close>.
\<close>

definition plain :: "string \<Rightarrow> bool" where
  "plain lang \<longleftrightarrow>
     list_all (\<lambda>c. (48 \<le> (of_char c :: nat) \<and> (of_char c :: nat) \<le> 57) \<or>
                   (65 \<le> (of_char c :: nat) \<and> (of_char c :: nat) \<le> 90) \<or>
                   (97 \<le> (of_char c :: nat) \<and> (of_char c :: nat) \<le> 122)) lang"

definition tagged_block ::
  "(string \<Rightarrow> string \<Rightarrow> error + string option) \<Rightarrow> string \<Rightarrow> string \<Rightarrow> error + string option" where
  "tagged_block fence lang s =
     (if plain lang then Inr (search_block ci (''```'' @ lang) s) else fence lang s)"

definition parse_code_generation_result ::
  "(string \<Rightarrow> string \<Rightarrow> error + string option) \<Rightarrow> (json \<Rightarrow> string) \<Rightarrow> string \<Rightarrow> json \<Rightarrow> string \<Rightarrow>
   error + GeneratedCode" where
  "parse_code_generation_result fence repr result_text category lang =
     ebind (tagged_block fence lang result_text) (\<lambda>tagged.
     let code_match = (case tagged of None \<Rightarrow> search_block (=) ''```'' result_text | Some b \<Rightarrow> Some b);
         script_content = (case code_match of Some b \<Rightarrow> strip b | None \<Rightarrow> result_text);
         dependencies =
           (case search_section ''DEPENDENCIES:'' [''DESCRIPTION:''] result_text of
              None \<Rightarrow> []
            | Some g \<Rightarrow> filter (\<lambda>dep. dep \<noteq> []) (map strip (split_on CHR ''\<newline>'' (strip g))));
         description =
           (case search_section ''DESCRIPTION:'' [''USAGE:''] result_text of
              None \<Rightarrow> ''Generated '' @ py_str repr category @ '' analysis script''
            | Some g \<Rightarrow> strip g);
         usage_instructions =
           (case search_section ''USAGE:'' [] result_text of
              None \<Rightarrow> ''Run the script with your data files''
            | Some g \<Rightarrow> strip g)
     in Inr \<lparr>gc_script_content = script_content, gc_language = lang,
             gc_dependencies = dependencies, gc_description = description,
             gc_usage_instructions = usage_instructions\<rparr>)"

subsection \<open>Generation\<close>

text \<open>
  The parameters of the generator: the remote service, the pattern search for languages
  that are not plain, the printing of values and of exception messages, and the
  templates.
\<close>

record generator =
  gen_gateway :: gateway
  gen_fence :: "string \<Rightarrow> string \<Rightarrow> error + string option"
  gen_repr :: "json \<Rightarrow> string"
  gen_msg :: "error \<Rightarrow> string"
  gen_templates :: "string \<rightharpoonup> string"




subsection \<open>Notions used to state the properties of the generator\<close>



text \<open>
  The prompt of a group, and what the generation call of a group yields: the script
  parsed from the reply, or nothing when the call fails.
\<close>

definition group_prompt ::
  "generator \<Rightarrow> ExtractedMethods \<Rightarrow> string \<Rightarrow> string \<Rightarrow> json \<times> ComputationalMethod list \<Rightarrow>
   error + string" where
  "group_prompt g em paper_title lang grp =
     ebind (get_template_for_category (gen_templates g) (fst grp))
       (create_code_generation_prompt (gen_repr g) (fst grp) (snd grp) em paper_title lang)"

definition answered ::
  "generator \<Rightarrow> ExtractedMethods \<Rightarrow> string \<Rightarrow> string \<Rightarrow> json \<times> ComputationalMethod list \<Rightarrow>
   GeneratedCode option" where
  "answered g em paper_title lang grp =
     (case group_prompt g em paper_title lang grp of
        Inl e \<Rightarrow> None
      | Inr prompt \<Rightarrow>
          (case ebind (gen_gateway g 4000 prompt) (\<lambda>result_text.
                  parse_code_generation_result (gen_fence g) (gen_repr g) result_text (fst grp) lang) of
             Inl e \<Rightarrow> None
           | Inr script \<Rightarrow> Some script))"






subsection \<open>Notions used to state the properties of the parser\<close>





section \<open>Properties of the extraction pipeline\<close>

lemma ebind_simps [simp]: "ebind (Inl e) f = Inl e" "ebind (Inr x) f = f x"
  by (simp_all add: ebind_def)

lemma traverse_map_inverse:
  "(\<And>x. f (g x) = Inr x) \<Longrightarrow> traverse f (map g xs) = Inr xs"
  by (induction xs) simp_all

lemma init_asdict_ComputationalMethod:
  "init_ComputationalMethod (asdict_ComputationalMethod m) = Inr m"
  by (simp add: asdict_ComputationalMethod_def accepts_def fields_ComputationalMethod_def)

lemma init_asdict_Dataset: "init_Dataset (asdict_Dataset d) = Inr d"
  by (simp add: asdict_Dataset_def accepts_def required_Dataset_def)

lemma init_asdict_Workflow: "init_Workflow (asdict_Workflow w) = Inr w"
  by (simp add: asdict_Workflow_def accepts_def fields_Workflow_def)

text \<open>
  Claim C7. Saving an extraction result to a path and loading that path again gives
  back the same result, equal in every field, whatever the result is: empty lists,
  an empty note and a dataset without size included.
\<close>

theorem load_after_save:
  "load_extracted_methods (save_extracted_methods fs r p) p = Inr r"
  by (simp add: load_extracted_methods_def save_extracted_methods_def asdict_ExtractedMethods_def
      parse_items_def traverse_map_inverse init_asdict_ComputationalMethod init_asdict_Dataset
      init_asdict_Workflow)

lemma dict_get_present: "map_of kvs k = Some v \<Longrightarrow> dict_get kvs k d = v"
  by (simp add: dict_get_def)

lemma isl_ebind: "isl m \<Longrightarrow> isl (ebind m f)"
  by (cases m) simp_all

lemma isl_ebind_cont: "(\<And>x. isl (f x)) \<Longrightarrow> isl (ebind m f)"
  by (cases m) simp_all

lemma isl_traverse: "x \<in> set xs \<Longrightarrow> isl (f x) \<Longrightarrow> isl (traverse f xs)"
  by (induction xs) (auto split: sum.splits)

lemma malformed_iff: "malformed required optional kw \<longleftrightarrow> \<not> accepts required optional kw"
  by (auto simp: malformed_def accepts_def list_all_iff)

lemma parse_body_json:
  "embedded_json loads reply = Some data \<Longrightarrow>
   parse_body loads reply =
     ebind (ebind (py_get data ''computational_methods'' (JArray []))
                  (parse_items init_ComputationalMethod)) (\<lambda>ms.
     ebind (ebind (py_get data ''datasets'' (JArray [])) (parse_items init_Dataset)) (\<lambda>ds.
     ebind (ebind (py_get data ''workflows'' (JArray [])) (parse_items init_Workflow)) (\<lambda>ws.
     ebind (py_get data ''key_findings'' (JArray [])) (\<lambda>kf.
     ebind (py_get data ''reproducibility_notes'' (JString [])) (\<lambda>rn.
     Inr \<lparr>computational_methods = ms, datasets = ds, workflows = ws,
          key_findings = kf, reproducibility_notes = rn\<rparr>)))))"
  by (simp add: embedded_json_def parse_body_def Let_def split: if_splits)

lemma parse_body_no_braces:
  "str_find CHR ''{'' reply = - 1 \<or> str_rfind CHR ''}'' reply = - 1 \<Longrightarrow>
   parse_body loads reply = Inl (ValueError ''No JSON found in response'')"
  by (auto simp: parse_body_def Let_def)

lemma parse_body_bad_json:
  "str_find CHR ''{'' reply \<noteq> - 1 \<Longrightarrow> str_rfind CHR ''}'' reply \<noteq> - 1 \<Longrightarrow>
   loads (slice reply (str_find CHR ''{'' reply) (str_rfind CHR ''}'' reply + 1)) = None \<Longrightarrow>
   parse_body loads reply = Inl JSONDecodeError"
  by (simp add: parse_body_def Let_def)

lemma isl_parse_extraction_result:
  "isl (parse_body loads reply) \<Longrightarrow> isl (parse_extraction_result loads reply)"
  by (auto simp: parse_extraction_result_def split: sum.splits error.splits)

lemma extract_methods_reply:
  "gw 4000 (create_extraction_prompt text title) = Inr reply \<Longrightarrow>
   extract_methods gw loads text title =
     (case parse_extraction_result loads reply of
        Inl e \<Rightarrow> Inl (Exception ''Failed to extract methods using Claude: '' e)
      | Inr r \<Rightarrow> Inr r)"
  by (simp add: extract_methods_def Let_def)

lemma isl_extract_methods:
  "gw 4000 (create_extraction_prompt text title) = Inr reply \<Longrightarrow>
   isl (parse_body loads reply) \<Longrightarrow> isl (extract_methods gw loads text title)"
  using isl_parse_extraction_result [of loads reply]
  by (auto simp: extract_methods_reply split: sum.splits)

lemma isl_parse_items:
  "it \<in> set items \<Longrightarrow> isl (init it) \<Longrightarrow> isl (parse_items init (JArray items))"
  by (simp add: parse_items_def isl_traverse)


text \<open>
  Claim C1, as the code has it. When the Gateway call succeeds and the reply lacks an
  opening or a closing brace, or the text between the first opening and the last
  closing brace is rejected by the JSON decoder, \<open>extract_methods\<close> fails. The failure
  is the plain exception raised by the handler of \<open>extract_methods\<close>, whose message
  starts with the words "Failed to extract methods using Claude: " and goes on with the
  message of the parse failure ("Failed to parse extraction result: No JSON found in
  response", or "Failed to parse JSON response: " and the decoder's message). The same
  handler wraps a failing Gateway call, so the two failures differ only in the inner
  message.
\<close>
theorem parse_failure_is_wrapped:
  "(gw 4000 (create_extraction_prompt text title) = Inr reply \<and>
      (str_find CHR ''{'' reply = - 1 \<or> str_rfind CHR ''}'' reply = - 1) \<longrightarrow>
    extract_methods gw loads text title =
      Inl (Exception ''Failed to extract methods using Claude: ''
            (Exception ''Failed to parse extraction result: ''
              (ValueError ''No JSON found in response'')))) \<and>
   (gw 4000 (create_extraction_prompt text title) = Inr reply \<and>
      str_find CHR ''{'' reply \<noteq> - 1 \<and> str_rfind CHR ''}'' reply \<noteq> - 1 \<and>
      loads (slice reply (str_find CHR ''{'' reply) (str_rfind CHR ''}'' reply + 1)) = None \<longrightarrow>
    extract_methods gw loads text title =
      Inl (Exception ''Failed to extract methods using Claude: ''
            (Exception ''Failed to parse JSON response: '' JSONDecodeError))) \<and>
   (gw 4000 (create_extraction_prompt text title) = Inl e \<longrightarrow>
    extract_methods gw loads text title =
      Inl (Exception ''Failed to extract methods using Claude: '' e))"
proof (intro conjI impI)
  assume a: "gw 4000 (create_extraction_prompt text title) = Inr reply \<and>
      (str_find CHR ''{'' reply = - 1 \<or> str_rfind CHR ''}'' reply = - 1)"
  then have "parse_body loads reply = Inl (ValueError ''No JSON found in response'')"
    using parse_body_no_braces by blast
  with a show "extract_methods gw loads text title =
      Inl (Exception ''Failed to extract methods using Claude: ''
            (Exception ''Failed to parse extraction result: ''
              (ValueError ''No JSON found in response'')))"
    by (simp add: extract_methods_reply parse_extraction_result_def)
next
  assume a: "gw 4000 (create_extraction_prompt text title) = Inr reply \<and>
      str_find CHR ''{'' reply \<noteq> - 1 \<and> str_rfind CHR ''}'' reply \<noteq> - 1 \<and>
      loads (slice reply (str_find CHR ''{'' reply) (str_rfind CHR ''}'' reply + 1)) = None"
  then have "parse_body loads reply = Inl JSONDecodeError"
    using parse_body_bad_json by blast
  with a show "extract_methods gw loads text title =
      Inl (Exception ''Failed to extract methods using Claude: ''
            (Exception ''Failed to parse JSON response: '' JSONDecodeError))"
    by (simp add: extract_methods_reply parse_extraction_result_def)
next
  assume "gw 4000 (create_extraction_prompt text title) = Inl e"
  then show "extract_methods gw loads text title =
      Inl (Exception ''Failed to extract methods using Claude: '' e)"
    by (simp add: extract_methods_def Let_def)
qed


lemma init_Dataset_without_size:
  "set (map fst kw) = set required_Dataset \<Longrightarrow>
   init_Dataset (JObject kw) =
     Inr \<lparr>ds_name = the (map_of kw ''name''), ds_description = the (map_of kw ''description''),
          ds_source = the (map_of kw ''source''), ds_format = the (map_of kw ''format''),
          ds_size = JNull\<rparr>"
proof -
  assume k: "set (map fst kw) = set required_Dataset"
  then have "accepts required_Dataset [''size''] kw"
    by (simp add: accepts_def list_all_iff)
  moreover have "''size'' \<notin> set (map fst kw)"
    using k by (simp add: required_Dataset_def)
  then have "map_of kw ''size'' = None"
    by (simp add: map_of_eq_None_iff)
  ultimately show ?thesis by simp
qed

lemma isl_init_ComputationalMethod:
  "malformed fields_ComputationalMethod [] kw \<Longrightarrow> isl (init_ComputationalMethod (JObject kw))"
  by (simp add: malformed_iff)

lemma isl_init_Dataset:
  "malformed required_Dataset [''size''] kw \<Longrightarrow> isl (init_Dataset (JObject kw))"
  by (simp add: malformed_iff)

lemma isl_init_Workflow:
  "malformed fields_Workflow [] kw \<Longrightarrow> isl (init_Workflow (JObject kw))"
  by (simp add: malformed_iff)

lemma bad_method_fails:
  assumes "embedded_json loads reply = Some (JObject kvs)"
    and "map_of kvs ''computational_methods'' = Some (JArray items)"
    and "JObject kw \<in> set items" and "malformed fields_ComputationalMethod [] kw"
  shows "isl (parse_body loads reply)"
proof -
  have "isl (parse_items init_ComputationalMethod (JArray items))"
    using assms(3,4) by (intro isl_parse_items [of "JObject kw"] isl_init_ComputationalMethod)
  then show ?thesis
    using assms(1,2) by (simp add: parse_body_json isl_ebind dict_get_present)
qed

lemma bad_dataset_fails:
  assumes "embedded_json loads reply = Some (JObject kvs)"
    and "map_of kvs ''datasets'' = Some (JArray items)"
    and "JObject kw \<in> set items" and "malformed required_Dataset [''size''] kw"
  shows "isl (parse_body loads reply)"
proof -
  have "isl (parse_items init_Dataset (JArray items))"
    using assms(3,4) by (intro isl_parse_items [of "JObject kw"] isl_init_Dataset)
  then show ?thesis
    using assms(1,2) by (simp add: parse_body_json isl_ebind isl_ebind_cont dict_get_present)
qed

lemma bad_workflow_fails:
  assumes "embedded_json loads reply = Some (JObject kvs)"
    and "map_of kvs ''workflows'' = Some (JArray items)"
    and "JObject kw \<in> set items" and "malformed fields_Workflow [] kw"
  shows "isl (parse_body loads reply)"
proof -
  have "isl (parse_items init_Workflow (JArray items))"
    using assms(3,4) by (intro isl_parse_items [of "JObject kw"] isl_init_Workflow)
  then show ?thesis
    using assms(1,2) by (simp add: parse_body_json isl_ebind isl_ebind_cont dict_get_present)
qed

text \<open>
  Claim C9. A dataset item that carries exactly the fields name, description, source and
  format is constructed, with \<open>size\<close> set to \<^verbatim>\<open>None\<close>. An item of the list under
  \<^verbatim>\<open>computational_methods\<close>, \<^verbatim>\<open>datasets\<close> or \<^verbatim>\<open>workflows\<close> that lacks any other
  declared field, or carries a field its class does not declare, makes the whole
  extraction fail.
\<close>
theorem item_fields_strict_except_size:
  "(set (map fst kw) = set required_Dataset \<longrightarrow>
      init_Dataset (JObject kw) =
        Inr \<lparr>ds_name = the (map_of kw ''name''), ds_description = the (map_of kw ''description''),
             ds_source = the (map_of kw ''source''), ds_format = the (map_of kw ''format''),
             ds_size = JNull\<rparr>) \<and>
   (gw 4000 (create_extraction_prompt text title) = Inr reply \<and>
    embedded_json loads reply = Some (JObject kvs) \<and> JObject kw \<in> set items \<and>
    (map_of kvs ''computational_methods'' = Some (JArray items) \<and>
       malformed fields_ComputationalMethod [] kw \<or>
     map_of kvs ''datasets'' = Some (JArray items) \<and>
       malformed required_Dataset [''size''] kw \<or>
     map_of kvs ''workflows'' = Some (JArray items) \<and>
       malformed fields_Workflow [] kw) \<longrightarrow>
    (\<exists>e. extract_methods gw loads text title = Inl e))"
proof (intro conjI impI)
  assume "set (map fst kw) = set required_Dataset"
  then show "init_Dataset (JObject kw) =
        Inr \<lparr>ds_name = the (map_of kw ''name''), ds_description = the (map_of kw ''description''),
             ds_source = the (map_of kw ''source''), ds_format = the (map_of kw ''format''),
             ds_size = JNull\<rparr>"
    by (rule init_Dataset_without_size)
next
  assume a: "gw 4000 (create_extraction_prompt text title) = Inr reply \<and>
    embedded_json loads reply = Some (JObject kvs) \<and> JObject kw \<in> set items \<and>
    (map_of kvs ''computational_methods'' = Some (JArray items) \<and>
       malformed fields_ComputationalMethod [] kw \<or>
     map_of kvs ''datasets'' = Some (JArray items) \<and>
       malformed required_Dataset [''size''] kw \<or>
     map_of kvs ''workflows'' = Some (JArray items) \<and>
       malformed fields_Workflow [] kw)"
  then have "isl (parse_body loads reply)"
    using bad_method_fails bad_dataset_fails bad_workflow_fails by blast
  with a have "isl (extract_methods gw loads text title)"
    by (simp add: isl_extract_methods)
  then show "\<exists>e. extract_methods gw loads text title = Inl e"
    by (cases "extract_methods gw loads text title") simp_all
qed


lemma find_doc_no_format:
  "str_find CHR ''{'' (''Here: '' @ doc_no_format @ '' done'') = 6"
  "str_rfind CHR ''}'' (''Here: '' @ doc_no_format @ '' done'') = 69"
  by (simp_all add: doc_no_format_def str_rfind_def)

lemma embedded_doc_no_format:
  "embedded_json (loads_only doc_no_format v) (''Here: '' @ doc_no_format @ '' done'') = Some v"
  unfolding embedded_json_def find_doc_no_format
  by (simp add: loads_only_def slice_def doc_no_format_def)

text \<open>
  An instance of claim C9: a dataset without size is built, and a reply whose only
  dataset lacks its format makes the extraction fail.
\<close>

theorem item_fields_strict_except_size_witness:
  "set (map fst kw_no_size) = set required_Dataset \<and>
   init_Dataset (JObject kw_no_size) =
     Inr \<lparr>ds_name = JString ''d'', ds_description = JString ''x'', ds_source = JString ''s'',
          ds_format = JString ''csv'', ds_size = JNull\<rparr> \<and>
   fixed_gateway (''Here: '' @ doc_no_format @ '' done'') 4000 (create_extraction_prompt ''text'' ''title'')
     = Inr (''Here: '' @ doc_no_format @ '' done'') \<and>
   embedded_json (loads_only doc_no_format (JObject (datasets_only kw_no_format)))
     (''Here: '' @ doc_no_format @ '' done'') = Some (JObject (datasets_only kw_no_format)) \<and>
   malformed required_Dataset [''size''] kw_no_format \<and>
   (\<exists>e. extract_methods (fixed_gateway (''Here: '' @ doc_no_format @ '' done''))
          (loads_only doc_no_format (JObject (datasets_only kw_no_format))) ''text'' ''title'' = Inl e)"
proof -
  have k: "set (map fst kw_no_size) = set required_Dataset"
    by (auto simp: kw_no_size_def required_Dataset_def)
  have m: "malformed required_Dataset [''size''] kw_no_format"
    by (simp add: malformed_def kw_no_format_def required_Dataset_def)
  have g: "fixed_gateway (''Here: '' @ doc_no_format @ '' done'') 4000
             (create_extraction_prompt ''text'' ''title'') = Inr (''Here: '' @ doc_no_format @ '' done'')"
    by (simp add: fixed_gateway_def)
  have d: "map_of (datasets_only kw_no_format) ''datasets'' = Some (JArray [JObject kw_no_format])"
    by (simp add: datasets_only_def)
  have 1: "init_Dataset (JObject kw_no_size) =
     Inr \<lparr>ds_name = JString ''d'', ds_description = JString ''x'', ds_source = JString ''s'',
          ds_format = JString ''csv'', ds_size = JNull\<rparr>"
    using item_fields_strict_except_size [of kw_no_size] k by (simp add: kw_no_size_def)
  have 2: "\<exists>e. extract_methods (fixed_gateway (''Here: '' @ doc_no_format @ '' done''))
          (loads_only doc_no_format (JObject (datasets_only kw_no_format))) ''text'' ''title'' = Inl e"
    using item_fields_strict_except_size
      [of kw_no_format "fixed_gateway (''Here: '' @ doc_no_format @ '' done'')" "''text''" "''title''"
          "''Here: '' @ doc_no_format @ '' done''"
          "loads_only doc_no_format (JObject (datasets_only kw_no_format))"
          "datasets_only kw_no_format" "[JObject kw_no_format]"]
      g m d embedded_doc_no_format
    by simp
  show ?thesis using k m g 1 2 embedded_doc_no_format by simp
qed


lemma constructible_ComputationalMethod:
  "constructible fields_ComputationalMethod [] v \<Longrightarrow>
   \<exists>ms. parse_items init_ComputationalMethod v = Inr ms \<and> (v = JArray [] \<longrightarrow> ms = [])"
proof (cases v)
  case (JArray items)
  assume "constructible fields_ComputationalMethod [] v"
  with JArray have "list_all (\<lambda>it. case it of JObject kw \<Rightarrow> accepts fields_ComputationalMethod [] kw
      | _ \<Rightarrow> False) items"
    by (simp add: constructible_def)
  then have "\<exists>ms. traverse init_ComputationalMethod items = Inr ms \<and> (items = [] \<longrightarrow> ms = [])"
    by (induction items) (auto split: json.splits)
  with JArray show ?thesis by (simp add: parse_items_def)
qed (simp_all add: constructible_def)

lemma constructible_Dataset:
  "constructible required_Dataset [''size''] v \<Longrightarrow>
   \<exists>ds. parse_items init_Dataset v = Inr ds \<and> (v = JArray [] \<longrightarrow> ds = [])"
proof (cases v)
  case (JArray items)
  assume "constructible required_Dataset [''size''] v"
  with JArray have "list_all (\<lambda>it. case it of JObject kw \<Rightarrow> accepts required_Dataset [''size''] kw
      | _ \<Rightarrow> False) items"
    by (simp add: constructible_def)
  then have "\<exists>ds. traverse init_Dataset items = Inr ds \<and> (items = [] \<longrightarrow> ds = [])"
    by (induction items) (auto split: json.splits)
  with JArray show ?thesis by (simp add: parse_items_def)
qed (simp_all add: constructible_def)

lemma constructible_Workflow:
  "constructible fields_Workflow [] v \<Longrightarrow>
   \<exists>ws. parse_items init_Workflow v = Inr ws \<and> (v = JArray [] \<longrightarrow> ws = [])"
proof (cases v)
  case (JArray items)
  assume "constructible fields_Workflow [] v"
  with JArray have "list_all (\<lambda>it. case it of JObject kw \<Rightarrow> accepts fields_Workflow [] kw
      | _ \<Rightarrow> False) items"
    by (simp add: constructible_def)
  then have "\<exists>ws. traverse init_Workflow items = Inr ws \<and> (items = [] \<longrightarrow> ws = [])"
    by (induction items) (auto split: json.splits)
  with JArray show ?thesis by (simp add: parse_items_def)
qed (simp_all add: constructible_def)

lemma dict_get_missing: "k \<notin> set (map fst kvs) \<Longrightarrow> dict_get kvs k d = d"
  by (cases "map_of kvs k") (auto simp: dict_get_def dest!: map_of_SomeD intro: rev_image_eqI)

text \<open>
  Claim C4, as the code has it. Let the reply embed a JSON object in which each of
  \<^verbatim>\<open>computational_methods\<close>, \<^verbatim>\<open>datasets\<close> and \<^verbatim>\<open>workflows\<close> is either absent or a list
  of objects that carry exactly the declared fields of their class (\<open>size\<close> optional).
  Then \<open>extract_methods\<close> returns a result and does not fail: a sequence key that is
  absent gives the empty sequence, an absent \<^verbatim>\<open>reproducibility_notes\<close> gives the empty
  string, and every key that is present gives the value of the reply.
\<close>
theorem missing_keys_default:
  assumes "gw 4000 (create_extraction_prompt text title) = Inr reply"
    and "embedded_json loads reply = Some (JObject kvs)"
    and "constructible fields_ComputationalMethod []
           (dict_get kvs ''computational_methods'' (JArray []))"
    and "constructible required_Dataset [''size''] (dict_get kvs ''datasets'' (JArray []))"
    and "constructible fields_Workflow [] (dict_get kvs ''workflows'' (JArray []))"
  shows "\<exists>r. extract_methods gw loads text title = Inr r \<and>
      parse_items init_ComputationalMethod (dict_get kvs ''computational_methods'' (JArray []))
        = Inr (computational_methods r) \<and>
      parse_items init_Dataset (dict_get kvs ''datasets'' (JArray [])) = Inr (datasets r) \<and>
      parse_items init_Workflow (dict_get kvs ''workflows'' (JArray [])) = Inr (workflows r) \<and>
      key_findings r = dict_get kvs ''key_findings'' (JArray []) \<and>
      reproducibility_notes r = dict_get kvs ''reproducibility_notes'' (JString []) \<and>
      (''computational_methods'' \<notin> set (map fst kvs) \<longrightarrow> computational_methods r = []) \<and>
      (''datasets'' \<notin> set (map fst kvs) \<longrightarrow> datasets r = []) \<and>
      (''workflows'' \<notin> set (map fst kvs) \<longrightarrow> workflows r = []) \<and>
      (''key_findings'' \<notin> set (map fst kvs) \<longrightarrow> key_findings r = JArray []) \<and>
      (''reproducibility_notes'' \<notin> set (map fst kvs) \<longrightarrow> reproducibility_notes r = JString [])"
proof -
  obtain ms where ms: "parse_items init_ComputationalMethod
        (dict_get kvs ''computational_methods'' (JArray [])) = Inr ms"
      "dict_get kvs ''computational_methods'' (JArray []) = JArray [] \<longrightarrow> ms = []"
    using constructible_ComputationalMethod [OF assms(3)] by blast
  obtain ds where ds: "parse_items init_Dataset (dict_get kvs ''datasets'' (JArray [])) = Inr ds"
      "dict_get kvs ''datasets'' (JArray []) = JArray [] \<longrightarrow> ds = []"
    using constructible_Dataset [OF assms(4)] by blast
  obtain ws where ws: "parse_items init_Workflow (dict_get kvs ''workflows'' (JArray [])) = Inr ws"
      "dict_get kvs ''workflows'' (JArray []) = JArray [] \<longrightarrow> ws = []"
    using constructible_Workflow [OF assms(5)] by blast
  let ?r = "\<lparr>computational_methods = ms, datasets = ds, workflows = ws,
             key_findings = dict_get kvs ''key_findings'' (JArray []),
             reproducibility_notes = dict_get kvs ''reproducibility_notes'' (JString [])\<rparr>"
  have "parse_body loads reply = Inr ?r"
    using assms(2) ms(1) ds(1) ws(1) by (simp add: parse_body_json)
  then have "extract_methods gw loads text title = Inr ?r"
    using assms(1) by (simp add: extract_methods_reply parse_extraction_result_def)
  then show ?thesis
    using ms ds ws by (simp add: dict_get_missing)
qed

lemma embedded_whole:
  "str_find CHR ''{'' doc = 0 \<Longrightarrow> str_rfind CHR ''}'' doc = int (length doc) - 1 \<Longrightarrow>
   embedded_json (loads_only doc v) doc = Some v"
  by (cases doc) (simp_all add: embedded_json_def loads_only_def slice_def)

lemma ends_doc_no_size:
  "str_find CHR ''{'' doc_no_size = 0" "str_rfind CHR ''}'' doc_no_size = int (length doc_no_size) - 1"
  by (simp_all add: doc_no_size_def str_rfind_def)

lemma ends_doc_misnamed:
  "str_find CHR ''{'' doc_misnamed = 0" "str_rfind CHR ''}'' doc_misnamed = int (length doc_misnamed) - 1"
  by (simp_all add: doc_misnamed_def str_rfind_def)

text \<open>
  An instance of claim C4: a reply that only has the key \<^verbatim>\<open>datasets\<close>, with one dataset
  without size.
\<close>

theorem missing_keys_default_witness:
  "embedded_json (loads_only doc_no_size (JObject (datasets_only kw_no_size))) doc_no_size
     = Some (JObject (datasets_only kw_no_size)) \<and>
   extract_methods (fixed_gateway doc_no_size)
       (loads_only doc_no_size (JObject (datasets_only kw_no_size))) ''text'' ''title''
     = Inr \<lparr>computational_methods = [],
            datasets = [\<lparr>ds_name = JString ''d'', ds_description = JString ''x'',
                         ds_source = JString ''s'', ds_format = JString ''csv'', ds_size = JNull\<rparr>],
            workflows = [], key_findings = JArray [], reproducibility_notes = JString []\<rparr>"
proof -
  let ?kvs = "datasets_only kw_no_size"
  have e: "embedded_json (loads_only doc_no_size (JObject ?kvs)) doc_no_size = Some (JObject ?kvs)"
    by (rule embedded_whole [OF ends_doc_no_size])
  have g: "fixed_gateway doc_no_size 4000 (create_extraction_prompt ''text'' ''title'') = Inr doc_no_size"
    by (simp add: fixed_gateway_def)
  have c1: "constructible fields_ComputationalMethod [] (dict_get ?kvs ''computational_methods'' (JArray []))"
    by (simp add: constructible_def dict_get_def datasets_only_def)
  have c2: "constructible required_Dataset [''size''] (dict_get ?kvs ''datasets'' (JArray []))"
    by (simp add: constructible_def dict_get_def datasets_only_def kw_no_size_def accepts_def
        required_Dataset_def)
  have c3: "constructible fields_Workflow [] (dict_get ?kvs ''workflows'' (JArray []))"
    by (simp add: constructible_def dict_get_def datasets_only_def)
  obtain r where r: "extract_methods (fixed_gateway doc_no_size)
       (loads_only doc_no_size (JObject ?kvs)) ''text'' ''title'' = Inr r"
      "parse_items init_Dataset (dict_get ?kvs ''datasets'' (JArray [])) = Inr (datasets r)"
      "key_findings r = dict_get ?kvs ''key_findings'' (JArray [])"
      "reproducibility_notes r = dict_get ?kvs ''reproducibility_notes'' (JString [])"
      "''computational_methods'' \<notin> set (map fst ?kvs) \<longrightarrow> computational_methods r = []"
      "''workflows'' \<notin> set (map fst ?kvs) \<longrightarrow> workflows r = []"
    using missing_keys_default
      [of "fixed_gateway doc_no_size" "''text''" "''title''" doc_no_size
          "loads_only doc_no_size (JObject ?kvs)" ?kvs, OF g e c1 c2 c3]
    by blast
  have "datasets r = [\<lparr>ds_name = JString ''d'', ds_description = JString ''x'',
                         ds_source = JString ''s'', ds_format = JString ''csv'', ds_size = JNull\<rparr>]"
    using r(2) by (simp add: parse_items_def dict_get_def datasets_only_def kw_no_size_def
        accepts_def required_Dataset_def)
  moreover have "computational_methods r = []" "workflows r = []"
    using r(5,6) by (simp_all add: datasets_only_def)
  moreover have "key_findings r = JArray []" "reproducibility_notes r = JString []"
    using r(3,4) by (simp_all add: dict_get_def datasets_only_def)
  ultimately have "r = \<lparr>computational_methods = [],
            datasets = [\<lparr>ds_name = JString ''d'', ds_description = JString ''x'',
                         ds_source = JString ''s'', ds_format = JString ''csv'', ds_size = JNull\<rparr>],
            workflows = [], key_findings = JArray [], reproducibility_notes = JString []\<rparr>"
    by (cases r) simp
  with r(1) e show ?thesis by simp
qed

text \<open>
  Claim C4 as first stated asks for a result whenever the embedded object parses and lacks
  some of the five keys. The reply below parses, lacks four of them, and still makes
  the extraction fail, since its only dataset carries a field \<^verbatim>\<open>foo\<close>.
\<close>

theorem missing_keys_counterexample:
  "embedded_json (loads_only doc_misnamed (JObject (datasets_only [(''foo'', JString ''x'')])))
     doc_misnamed = Some (JObject (datasets_only [(''foo'', JString ''x'')])) \<and>
   ''key_findings'' \<notin> set (map fst (datasets_only [(''foo'', JString ''x'')])) \<and>
   extract_methods (fixed_gateway doc_misnamed)
       (loads_only doc_misnamed (JObject (datasets_only [(''foo'', JString ''x'')]))) ''text'' ''title''
     = Inl (Exception ''Failed to extract methods using Claude: ''
             (Exception ''Failed to parse extraction result: '' TypeError))"
proof -
  let ?kvs = "datasets_only [(''foo'', JString ''x'')]"
  have e: "embedded_json (loads_only doc_misnamed (JObject ?kvs)) doc_misnamed = Some (JObject ?kvs)"
    by (rule embedded_whole [OF ends_doc_misnamed])
  have "parse_body (loads_only doc_misnamed (JObject ?kvs)) doc_misnamed = Inl TypeError"
    unfolding parse_body_json [OF e]
    by (simp add: datasets_only_def parse_items_def accepts_def required_Dataset_def dict_get_def)
  moreover have g: "fixed_gateway doc_misnamed 4000 (create_extraction_prompt ''text'' ''title'')
      = Inr doc_misnamed"
    by (simp add: fixed_gateway_def)
  ultimately have "extract_methods (fixed_gateway doc_misnamed)
       (loads_only doc_misnamed (JObject ?kvs)) ''text'' ''title''
     = Inl (Exception ''Failed to extract methods using Claude: ''
             (Exception ''Failed to parse extraction result: '' TypeError))"
    using extract_methods_reply
      [of "fixed_gateway doc_misnamed" "''text''" "''title''" doc_misnamed
          "loads_only doc_misnamed (JObject ?kvs)"]
    by (simp add: parse_extraction_result_def)
  then show ?thesis
    using e by (simp add: datasets_only_def)
qed

text \<open>
  Instances of claim C1: a reply without braces, a reply whose braces enclose no JSON,
  and a Gateway that raises.
\<close>

theorem parse_failure_is_wrapped_witness:
  "fixed_gateway ''no json here'' 4000 (create_extraction_prompt ''text'' ''title'') = Inr ''no json here'' \<and>
   str_find CHR ''{'' ''no json here'' = - 1 \<and>
   extract_methods (fixed_gateway ''no json here'') (\<lambda>s. None) ''text'' ''title'' =
      Inl (Exception ''Failed to extract methods using Claude: ''
            (Exception ''Failed to parse extraction result: ''
              (ValueError ''No JSON found in response''))) \<and>
   str_find CHR ''{'' ''{oops}'' \<noteq> - 1 \<and> str_rfind CHR ''}'' ''{oops}'' \<noteq> - 1 \<and>
   extract_methods (fixed_gateway ''{oops}'') (\<lambda>s. None) ''text'' ''title'' =
      Inl (Exception ''Failed to extract methods using Claude: ''
            (Exception ''Failed to parse JSON response: '' JSONDecodeError)) \<and>
   extract_methods (failing_gateway (GatewayError ''timeout'')) (\<lambda>s. None) ''text'' ''title'' =
      Inl (Exception ''Failed to extract methods using Claude: '' (GatewayError ''timeout''))"
  using parse_failure_is_wrapped
      [of "fixed_gateway ''no json here''" "''text''" "''title''" "''no json here''" "\<lambda>s. None"]
    parse_failure_is_wrapped
      [of "fixed_gateway ''{oops}''" "''text''" "''title''" "''{oops}''" "\<lambda>s. None"]
    parse_failure_is_wrapped
      [of "failing_gateway (GatewayError ''timeout'')" "''text''" "''title''" _ _ "GatewayError ''timeout''"]
  by (simp add: fixed_gateway_def failing_gateway_def str_rfind_def)

text \<open>
  Claim C1 as first stated says that a parse failure is not wrapped as an extraction
  failure. The failure for a reply without braces and the failure of the Gateway are both
  raised by the handler of \<open>extract_methods\<close>.
\<close>

theorem parse_failure_counterexample:
  "(case extract_methods (fixed_gateway ''no json here'') (\<lambda>s. None) ''text'' ''title'' of
      Inl e \<Rightarrow> raised_by_extract_methods e | Inr r \<Rightarrow> False) \<and>
   (case extract_methods (failing_gateway (GatewayError ''timeout'')) (\<lambda>s. None) ''text'' ''title'' of
      Inl e \<Rightarrow> raised_by_extract_methods e | Inr r \<Rightarrow> False)"
  by (simp add: extract_methods_def fixed_gateway_def failing_gateway_def
      parse_extraction_result_def parse_body_def raised_by_extract_methods_def)

section \<open>Properties of the question-answering engine\<close>

lemma traverse_all_ok:
  "(\<And>x. x \<in> set xs \<Longrightarrow> \<exists>y. f x = Inr y) \<Longrightarrow> \<exists>ys. traverse f xs = Inr ys"
proof (induction xs)
  case Nil
  then show ?case by simp
next
  case (Cons x xs)
  then obtain y where "f x = Inr y" by (meson list.set_intros(1))
  moreover obtain ys where "traverse f xs = Inr ys" using Cons by (meson list.set_intros(2))
  ultimately show ?case by simp
qed

lemma as_str_ok: "is_str x \<Longrightarrow> \<exists>s. as_str x = Inr s"
  by (cases x) (simp_all add: is_str_def)

lemma py_join_ok: "is_str_list v \<Longrightarrow> \<exists>s. py_join sep v = Inr s"
proof (cases v)
  case (JArray xs)
  assume "is_str_list v"
  with JArray have "list_all is_str xs" by (simp add: is_str_list_def)
  then have "\<exists>ss. traverse as_str xs = Inr ss"
    by (intro traverse_all_ok as_str_ok) (simp add: list_all_iff)
  with JArray show ?thesis by (auto simp: py_join_def)
qed (simp_all add: is_str_list_def)

lemma method_block_ok: "wt_ComputationalMethod m \<Longrightarrow> \<exists>s. method_block repr m = Inr s"
proof -
  assume wt: "wt_ComputationalMethod m"
  obtain a where "py_join '', '' (cm_software_tools m) = Inr a"
    using wt py_join_ok by (auto simp: wt_ComputationalMethod_def)
  moreover obtain b where "py_join '', '' (cm_programming_languages m) = Inr b"
    using wt py_join_ok by (auto simp: wt_ComputationalMethod_def)
  ultimately show ?thesis by (simp add: method_block_def)
qed

lemma workflow_block_ok: "wt_Workflow x \<Longrightarrow> \<exists>s. workflow_block repr x = Inr s"
proof -
  assume wt: "wt_Workflow x"
  obtain a where "py_join arrow_sep (wf_steps x) = Inr a"
    using wt py_join_ok by (auto simp: wt_Workflow_def)
  moreover obtain b where "py_join '', '' (wf_input_data x) = Inr b"
    using wt py_join_ok by (auto simp: wt_Workflow_def)
  moreover obtain c where "py_join '', '' (wf_output_data x) = Inr c"
    using wt py_join_ok by (auto simp: wt_Workflow_def)
  moreover obtain d where "py_join '', '' (wf_dependencies x) = Inr d"
    using wt py_join_ok by (auto simp: wt_Workflow_def)
  ultimately show ?thesis by (simp add: workflow_block_def)
qed

lemma create_qa_prompt_ok:
  assumes "wt_ExtractedMethods em"
  shows "\<exists>p. create_qa_prompt repr pm em hist q = Inr p"
proof -
  obtain ms where "traverse (method_block repr) (computational_methods em) = Inr ms"
    using assms traverse_all_ok [of "computational_methods em" "method_block repr"] method_block_ok
    by (auto simp: wt_ExtractedMethods_def list_all_iff)
  moreover obtain ws where "traverse (workflow_block repr) (workflows em) = Inr ws"
    using assms traverse_all_ok [of "workflows em" "workflow_block repr"] workflow_block_ok
    by (auto simp: wt_ExtractedMethods_def list_all_iff)
  moreover obtain kf where "py_join ''\<newline>'' (key_findings em) = Inr kf"
    using assms py_join_ok by (auto simp: wt_ExtractedMethods_def)
  ultimately show ?thesis by (simp add: create_qa_prompt_def Let_def)
qed

lemma ask_no_context:
  "paper_metadata self = None \<or> extracted_methods self = None \<Longrightarrow>
   ask_question gw repr msg now self q w =
     (Inr ''Please load a paper first before asking questions.'', self, w)"
  by (auto simp: ask_question_def split: option.splits)

lemma ask_gateway_fails:
  "paper_metadata self = Some pm \<Longrightarrow> extracted_methods self = Some em \<Longrightarrow>
   create_qa_prompt repr pm em (history w self) q = Inr prompt \<Longrightarrow> gw 2000 prompt = Inl e \<Longrightarrow>
   ask_question gw repr msg now self q w =
     (Inr (''Error processing question: '' @ message msg e), self,
      w\<lparr>requests := requests w @ [(2000, prompt)]\<rparr>)"
  by (simp add: ask_question_def call_def)

lemma ask_gateway_answers:
  "paper_metadata self = Some pm \<Longrightarrow> extracted_methods self = Some em \<Longrightarrow>
   create_qa_prompt repr pm em (history w self) q = Inr prompt \<Longrightarrow> gw 2000 prompt = Inr a \<Longrightarrow>
   ask_question gw repr msg now self q w =
     (case add_to_history now q a self (w\<lparr>requests := requests w @ [(2000, prompt)]\<rparr>) of
        (self1, w2) \<Rightarrow> (Inr a, self1, w2))"
  by (simp add: ask_question_def call_def)

lemma ask_prompt_raises:
  "paper_metadata self = Some pm \<Longrightarrow> extracted_methods self = Some em \<Longrightarrow>
   create_qa_prompt repr pm em (history w self) q = Inl e \<Longrightarrow>
   ask_question gw repr msg now self q w = (Inl e, self, w)"
  by (simp add: ask_question_def)


lemma add_to_history_effect:
  assumes "valid w self" and "add_to_history now q a self w = (s', w')"
  shows "valid w' s'"
    and "history w' s' =
           drop (length (history w self) + 1 - 10) (history w self @ [new_exchange now q a])"
    and "requests w' = requests w"
    and "paper_metadata s' = paper_metadata self"
    and "extracted_methods s' = extracted_methods self"
  using assms
  by (auto simp: add_to_history_def Let_def valid_def history_def nth_append split: if_splits)

lemma ask_history_cases:
  assumes "valid w self" and "ask_question gw repr msg now self q w = (r, s', w')"
  shows "valid w' s' \<and>
         (history w' s' = history w self \<or>
          (\<exists>a. history w' s' =
             drop (length (history w self) + 1 - 10) (history w self @ [new_exchange now q a])))"
proof (cases "paper_metadata self")
  case None
  then show ?thesis using assms by (simp add: ask_no_context)
next
  case pm: (Some pm)
  show ?thesis
  proof (cases "extracted_methods self")
    case None
    then show ?thesis using assms by (simp add: ask_no_context)
  next
    case em: (Some em)
    show ?thesis
    proof (cases "create_qa_prompt repr pm em (history w self) q")
      case (Inl e)
      then show ?thesis using assms pm em by (simp add: ask_prompt_raises)
    next
      case p: (Inr prompt)
      show ?thesis
      proof (cases "gw 2000 prompt")
        case (Inl e)
        then show ?thesis
          using assms ask_gateway_fails [OF pm em p, of gw e msg now]
          by (auto simp: valid_def history_def)
      next
        case (Inr a)
        let ?w1 = "w\<lparr>requests := requests w @ [(2000, prompt)]\<rparr>"
        have v1: "valid ?w1 self" and h1: "history ?w1 self = history w self"
          using assms(1) by (simp_all add: valid_def history_def)
        obtain s2 w2 where a2: "add_to_history now q a self ?w1 = (s2, w2)"
          by (cases "add_to_history now q a self ?w1")
        then have "s' = s2" "w' = w2"
          using assms(2) pm em p Inr by (simp_all add: ask_gateway_answers)
        then show ?thesis
          using add_to_history_effect(1,2) [OF v1 a2] h1 by auto
      qed
    qed
  qed
qed

lemma ask_keeps_cap:
  assumes "valid w self" and "length (history w self) \<le> 10"
    and "ask_question gw repr msg now self q w = (r, s', w')"
  shows "valid w' s' \<and> length (history w' s') \<le> 10"
  using ask_history_cases [OF assms(1,3)] assms(2) by auto

lemma traverse_replicate:
  "f x = Inr y \<Longrightarrow> traverse f (replicate n x) = Inr (replicate n y)"
  by (induction n) simp_all

lemma exchange_of_saved_item:
  "exchange_of_item saved_item =
     Inr \<lparr>qa_question = JString ''q'', qa_answer = JString ''a'',
          qa_timestamp = JString ''2024-01-01T00:00:00'',
          qa_context_used = JString ''paper_content_and_methods''\<rparr>"
  by (simp add: exchange_of_item_def saved_item_def)

text \<open>
  Claim C2 says that no operation of the engine leaves more than ten exchanges in the
  history. \<open>load_conversation\<close> binds the history to the list read from the document
  without trimming it: for a saved conversation of eleven exchanges, the history of the
  engine has eleven entries after the call. The lemmas \<open>ask_keeps_cap\<close> and
  \<open>eleven_asks\<close> below show the cap and the eviction order for \<open>ask_question\<close>.
\<close>
theorem load_conversation_exceeds_cap:
  "(case load_conversation [''saved.json'' \<mapsto> saved_conversation 11] fresh_engine ''saved.json''
          fresh_world of
      Inl e \<Rightarrow> False
    | Inr (s', w') \<Rightarrow> length (history w' s') = 11)"
  by (simp add: load_conversation_def saved_conversation_def
      traverse_replicate [of exchange_of_item saved_item, OF exchange_of_saved_item]
      history_def fresh_world_def)









text \<open>
  The part of claim C2 that concerns \<open>ask_question\<close>: each answered question appends one
  exchange and keeps the last ten, and eleven answered questions on an empty history leave
  ten exchanges, the first of which is the exchange of the second question.
\<close>

lemma drop_window:
  "drop (length (drop (length xs - n) xs @ ys) - n) (drop (length xs - n) xs @ ys)
     = drop (length (xs @ ys) - n) (xs @ ys)"
  by (cases "length xs \<le> n") (auto simp: add.commute)

lemma ask_question_answers:
  assumes "valid w self" and "paper_metadata self = Some pm" and "extracted_methods self = Some em"
    and "wt_ExtractedMethods em" and "\<forall>p. \<not> isl (gw 2000 p)"
  shows "\<exists>a s' w'. ask_question gw repr msg now self q w = (Inr a, s', w') \<and> valid w' s' \<and>
           paper_metadata s' = Some pm \<and> extracted_methods s' = Some em \<and>
           history w' s' =
             drop (length (history w self @ [new_exchange now q a]) - 10)
               (history w self @ [new_exchange now q a])"
proof -
  obtain prompt where p: "create_qa_prompt repr pm em (history w self) q = Inr prompt"
    using create_qa_prompt_ok [OF assms(4)] by blast
  obtain a where a: "gw 2000 prompt = Inr a"
    using assms(5) [rule_format, of prompt] by (cases "gw 2000 prompt") auto
  let ?w1 = "w\<lparr>requests := requests w @ [(2000, prompt)]\<rparr>"
  have v1: "valid ?w1 self" and h1: "history ?w1 self = history w self"
    using assms(1) by (simp_all add: valid_def history_def)
  obtain s2 w2 where a2: "add_to_history now q a self ?w1 = (s2, w2)"
    by (cases "add_to_history now q a self ?w1")
  have "ask_question gw repr msg now self q w = (Inr a, s2, w2)"
    using assms(2,3) p a a2 by (simp add: ask_gateway_answers)
  then show ?thesis
    using add_to_history_effect [OF v1 a2] h1 assms(2,3) by simp
qed

lemma ask_all_answers:
  assumes "valid w self" and "paper_metadata self = Some pm" and "extracted_methods self = Some em"
    and "length (history w self) \<le> 10"
    and "wt_ExtractedMethods em" and "\<forall>p. \<not> isl (gw 2000 p)"
  shows "\<exists>rs s' w'. ask_all gw repr msg qs self w = (rs, s', w') \<and> length rs = length qs \<and>
           list_all (\<lambda>r. \<not> isl r) rs \<and>
           history w' s' =
             drop (length (history w self @ exchanges_of qs rs) - 10)
               (history w self @ exchanges_of qs rs)"
  using assms(1-4)
proof (induction qs arbitrary: self w)
  case Nil
  then show ?case by (simp add: exchanges_of_def)
next
  case (Cons nq qs)
  obtain now q where nq: "nq = (now, q)" by (cases nq)
  obtain a s1 w1 where 1: "ask_question gw repr msg now self q w = (Inr a, s1, w1)"
      "valid w1 s1" "paper_metadata s1 = Some pm" "extracted_methods s1 = Some em"
      "history w1 s1 = drop (length (history w self @ [new_exchange now q a]) - 10)
               (history w self @ [new_exchange now q a])"
    using ask_question_answers [of w self pm em gw repr msg now q, OF Cons.prems(1-3) assms(5,6)]
    by blast
  have le: "length (history w1 s1) \<le> 10"
    unfolding 1(5) by simp
  obtain rs s2 w2 where 2: "ask_all gw repr msg qs s1 w1 = (rs, s2, w2)" "length rs = length qs"
      "list_all (\<lambda>r. \<not> isl r) rs"
      "history w2 s2 = drop (length (history w1 s1 @ exchanges_of qs rs) - 10)
               (history w1 s1 @ exchanges_of qs rs)"
    using Cons.IH [OF 1(2,3,4) le] by blast
  have "history w2 s2 =
      drop (length ((history w self @ [new_exchange now q a]) @ exchanges_of qs rs) - 10)
        ((history w self @ [new_exchange now q a]) @ exchanges_of qs rs)"
    unfolding 2(4) 1(5) by (rule drop_window)
  then show ?case
    using 1(1) 2(1,2,3) by (simp add: nq exchanges_of_def)
qed

lemma eleven_asks:
  assumes "valid w self" and "history w self = []"
    and "paper_metadata self = Some pm" and "extracted_methods self = Some em"
    and "wt_ExtractedMethods em" and "\<forall>p. \<not> isl (gw 2000 p)" and "length qs = 11"
  shows "\<exists>rs s' w'. ask_all gw repr msg qs self w = (rs, s', w') \<and>
           list_all (\<lambda>r. \<not> isl r) rs \<and> length (history w' s') = 10 \<and>
           hd (history w' s') = new_exchange (fst (qs ! 1)) (snd (qs ! 1)) (projr (rs ! 1))"
proof -
  obtain rs s' w' where r: "ask_all gw repr msg qs self w = (rs, s', w')" "length rs = length qs"
      "list_all (\<lambda>r. \<not> isl r) rs"
      "history w' s' = drop (length (history w self @ exchanges_of qs rs) - 10)
               (history w self @ exchanges_of qs rs)"
    using ask_all_answers [of w self pm em gw repr msg qs, OF assms(1,3,4) _ assms(5,6)] assms(2)
    by auto
  have l: "length (exchanges_of qs rs) = 11"
    using r(2) assms(7) by (simp add: exchanges_of_def)
  have h: "history w' s' = drop 1 (exchanges_of qs rs)"
    using r(4) l assms(2) by simp
  have "hd (drop 1 (exchanges_of qs rs)) = exchanges_of qs rs ! 1"
    using l by (simp add: hd_drop_conv_nth)
  also have "\<dots> = new_exchange (fst (qs ! 1)) (snd (qs ! 1)) (projr (rs ! 1))"
    using r(2) assms(7) by (simp add: exchanges_of_def)
  finally show ?thesis using r(1,3) h l by simp
qed

section \<open>Properties of the code generator\<close>




































section \<open>Properties of the parser of generated code\<close>

lemma prefix_by_Nil [simp]: "prefix_by eq pat [] \<longleftrightarrow> pat = []"
  by (cases pat) simp_all

















end
